theory Spec2Isabelle
  imports Complex_Main
begin

section \<open>JavaScript values\<close>

text \<open>
  The handlers work on values that come out of \<^verbatim>\<open>JSON.parse\<close> / \<^verbatim>\<open>request.json()\<close>
  or out of a data store: null, booleans, numbers, strings, arrays and plain objects.
  \<^verbatim>\<open>undefined\<close> is \<open>None\<close> of \<open>json option\<close>. Strings are byte strings (the UTF-8 encoding
  of the text). A number is the rational it denotes (JSON has no NaN; a literal too large
  for a double, which parses to Infinity, has no counterpart here). An object is the list
  of its members in source order.
\<close>

datatype json =
    JNull
  | JBool bool
  | JNum rat
  | JStr string
  | JArr "json list"
  | JObj "(string \<times> json) list"

text \<open>JavaScript truthiness (\<^verbatim>\<open>!x\<close> is its negation): null, false, 0 and the empty string
  are falsy, every array and object is truthy.\<close>

fun truthy :: "json \<Rightarrow> bool" where
  "truthy JNull = False"
| "truthy (JBool b) = b"
| "truthy (JNum n) = (n \<noteq> 0)"
| "truthy (JStr s) = (s \<noteq> [])"
| "truthy (JArr xs) = True"
| "truthy (JObj kvs) = True"

text \<open>Truthiness of a value that may be \<^verbatim>\<open>undefined\<close>.\<close>

fun truthy_opt :: "json option \<Rightarrow> bool" where
  "truthy_opt None = False"
| "truthy_opt (Some v) = truthy v"

text \<open>Truthiness of a \<^verbatim>\<open>string | null\<close> value.\<close>

fun truthy_str :: "string option \<Rightarrow> bool" where
  "truthy_str None = False"
| "truthy_str (Some s) = (s \<noteq> [])"

text \<open>
  Property read \<^verbatim>\<open>v.k\<close> on a value that is not null, for the property names the handlers
  read (title, variants, price, errors, product, id, userType, username): an object yields
  its member of that name (the last one when the JSON text repeated the key, as
  \<^verbatim>\<open>JSON.parse\<close> keeps it), every other value yields \<^verbatim>\<open>undefined\<close>. Reading a property of
  null throws; each caller handles that case itself.
\<close>

fun property :: "json \<Rightarrow> string \<Rightarrow> json option" where
  "property (JObj kvs) k = map_of (rev kvs) k"
| "property v k = None"

text \<open>\<^verbatim>\<open>Array.isArray(v)\<close>.\<close>

fun isArray :: "json \<Rightarrow> bool" where
  "isArray (JArr xs) = True"
| "isArray v = False"

text \<open>\<^verbatim>\<open>v[0]\<close> on an array: \<^verbatim>\<open>undefined\<close> when the array is empty.\<close>

fun index0 :: "json \<Rightarrow> json option" where
  "index0 (JArr (x # xs)) = Some x"
| "index0 v = None"

text \<open>An object literal whose \<^verbatim>\<open>undefined\<close> members are dropped when it is serialised.\<close>

definition obj :: "(string \<times> json option) list \<Rightarrow> json" where
  "obj kvs = JObj (List.map_filter (\<lambda>(k, v). map_option (\<lambda>x. (k, x)) v) kvs)"

text \<open>The response of a handler: status, JSON body, and the cookies it deletes.\<close>

record response =
  status :: nat
  body :: json
  deleted_cookies :: "string list"

definition json_response :: "nat \<Rightarrow> json \<Rightarrow> response" where
  "json_response st b = \<lparr>status = st, body = b, deleted_cookies = []\<rparr>"

section \<open>A JavaScript Map\<close>

text \<open>
  \<^verbatim>\<open>new Map()\<close> keeps its entries in insertion order; \<^verbatim>\<open>set\<close> on a key that is present
  replaces the value and leaves the entry where it is, \<^verbatim>\<open>set\<close> on a new key appends.
\<close>

type_synonym ('k, 'v) jsmap = "('k \<times> 'v) list"

definition map_has :: "'k \<Rightarrow> ('k, 'v) jsmap \<Rightarrow> bool" where
  "map_has k m = (k \<in> set (map fst m))"

fun map_set :: "'k \<Rightarrow> 'v \<Rightarrow> ('k, 'v) jsmap \<Rightarrow> ('k, 'v) jsmap" where
  "map_set k v [] = [(k, v)]"
| "map_set k v ((k', v') # m) = (if k' = k then (k, v) # m else (k', v') # map_set k v m)"

definition map_values :: "('k, 'v) jsmap \<Rightarrow> 'v list" where
  "map_values m = map snd m"

section \<open>The store list of a seller\<close>

text \<open>A row of the primary registry, as \<^verbatim>\<open>SellerStoreService.getSellerStoreConnections\<close>
  returns it, and a row of the legacy token store, as \<^verbatim>\<open>TokenManager.getUserStores\<close>
  returns it (the fields the handler reads).\<close>

record seller_connection =
  storeUrl :: string
  storeName :: string
  connectedAt :: string
  updatedAt :: string
  connectionType :: string

record token_store =
  shop :: string
  created_at :: string
  updated_at :: string

text \<open>An entry of the merged list.\<close>

record store_entry =
  entry_shop :: string
  entry_name :: string
  entry_connectedAt :: string
  entry_lastUpdated :: string
  entry_type :: string
  entry_source :: string

definition connection_entry :: "seller_connection \<Rightarrow> store_entry" where
  "connection_entry conn =
     \<lparr>entry_shop = storeUrl conn, entry_name = storeName conn,
      entry_connectedAt = connectedAt conn, entry_lastUpdated = updatedAt conn,
      entry_type = connectionType conn, entry_source = ''seller_connections''\<rparr>"

definition token_entry :: "token_store \<Rightarrow> store_entry" where
  "token_entry store =
     \<lparr>entry_shop = shop store, entry_name = shop store,
      entry_connectedAt = created_at store, entry_lastUpdated = updated_at store,
      entry_type = ''legacy'', entry_source = ''shopify_tokens''\<rparr>"

text \<open>The body of the first \<^verbatim>\<open>forEach\<close>: every primary connection is set.\<close>

definition add_connection ::
  "(string, store_entry) jsmap \<Rightarrow> seller_connection \<Rightarrow> (string, store_entry) jsmap" where
  "add_connection storeMap conn = map_set (storeUrl conn) (connection_entry conn) storeMap"

text \<open>The body of the second \<^verbatim>\<open>forEach\<close>: a legacy row is set only when its key is absent.\<close>

definition add_token_store ::
  "(string, store_entry) jsmap \<Rightarrow> token_store \<Rightarrow> (string, store_entry) jsmap" where
  "add_token_store storeMap store =
     (if \<not> map_has (shop store) storeMap
      then map_set (shop store) (token_entry store) storeMap
      else storeMap)"

definition build_storeMap ::
  "seller_connection list \<Rightarrow> token_store list \<Rightarrow> (string, store_entry) jsmap" where
  "build_storeMap sellerConnections tokenStores =
     foldl add_token_store (foldl add_connection [] sellerConnections) tokenStores"

text \<open>\<^verbatim>\<open>Array.from(storeMap.values())\<close>.\<close>

definition merged_stores :: "seller_connection list \<Rightarrow> token_store list \<Rightarrow> store_entry list" where
  "merged_stores sellerConnections tokenStores =
     map_values (build_storeMap sellerConnections tokenStores)"

text \<open>
  The listing handler (\<^verbatim>\<open>GET\<close>, second part of \<^verbatim>\<open>src/app/api/products/supplier/route.ts\<close>).
  \<^verbatim>\<open>AuthService\<close>, \<^verbatim>\<open>SellerStoreService\<close> and \<^verbatim>\<open>TokenManager\<close> are not among the sources:
  what their calls return is a parameter of the handler. An awaited call either returns
  or throws; a throw is caught by the handler's \<^verbatim>\<open>try\<close>.
\<close>

datatype 'a outcome = Throws | Returns 'a

text \<open>What \<^verbatim>\<open>AuthService.verifySession\<close> returns, as far as the handlers read it.\<close>

record session_result =
  success :: bool
  user :: "json option"
  error :: "string option"

record listing_env =
  verifySession :: "string \<Rightarrow> session_result outcome"
  getSellerStoreConnections :: "json option \<Rightarrow> seller_connection list outcome"
  getUserStores :: "json option \<Rightarrow> token_store list outcome"

definition entry_json :: "store_entry \<Rightarrow> json" where
  "entry_json e =
     JObj [(''shop'', JStr (entry_shop e)), (''name'', JStr (entry_name e)),
           (''connectedAt'', JStr (entry_connectedAt e)),
           (''lastUpdated'', JStr (entry_lastUpdated e)),
           (''type'', JStr (entry_type e)), (''source'', JStr (entry_source e))]"

definition error_body :: "string \<Rightarrow> json" where
  "error_body msg = JObj [(''error'', JStr msg)]"

definition stores_GET :: "listing_env \<Rightarrow> string option \<Rightarrow> response" where
  "stores_GET env sessionToken =
     (if \<not> truthy_str sessionToken
      then json_response 401 (error_body ''Authentication required'')
      else case verifySession env (the sessionToken) of
        Throws \<Rightarrow> json_response 500 (error_body ''Internal server error'')
      | Returns sessionResult \<Rightarrow>
          if \<not> success sessionResult \<or> \<not> truthy_opt (user sessionResult)
             \<or> property (the (user sessionResult)) ''userType'' \<noteq> Some (JStr ''seller'')
          then json_response 401 (error_body ''Seller authentication required'')
          else
            (let username = property (the (user sessionResult)) ''username'' in
             (case getSellerStoreConnections env username of
                Throws \<Rightarrow> json_response 500 (error_body ''Internal server error'')
              | Returns sellerConnections \<Rightarrow>
                  (case getUserStores env username of
                     Throws \<Rightarrow> json_response 500 (error_body ''Internal server error'')
                   | Returns tokenStores \<Rightarrow>
                       (let stores = merged_stores sellerConnections tokenStores in
                        json_response 200
                          (obj [(''stores'', Some (JArr (map entry_json stores))),
                                (''username'', username),
                                (''totalStores'', Some (JNum (of_nat (length stores))))]))))))"

section \<open>The session verification endpoint\<close>

text \<open>
  \<^verbatim>\<open>GET\<close> of \<^verbatim>\<open>src/app/api/auth/session/route.ts\<close>. The argument is
  \<^verbatim>\<open>request.cookies.get('session_token')?.value\<close>.
\<close>

definition session_GET :: "(string \<Rightarrow> session_result outcome) \<Rightarrow> string option \<Rightarrow> response" where
  "session_GET verify sessionToken =
     (if \<not> truthy_str sessionToken
      then json_response 401
             (JObj [(''success'', JBool False), (''error'', JStr ''No session token found'')])
      else case verify (the sessionToken) of
        Throws \<Rightarrow>
          json_response 500
            (JObj [(''success'', JBool False), (''error'', JStr ''Internal server error'')])
      | Returns result \<Rightarrow>
          if \<not> success result
          then \<lparr>status = 401,
                body = obj [(''success'', Some (JBool False)),
                            (''error'', map_option JStr (error result))],
                deleted_cookies = [''session_token'']\<rparr>
          else json_response 200
                 (obj [(''success'', Some (JBool True)), (''user'', user result)]))"

section \<open>Base64\<close>

text \<open>
  \<^verbatim>\<open>Buffer.from(s).toString('base64')\<close> and \<^verbatim>\<open>digest('base64')\<close>: the standard alphabet,
  three bytes to four characters, padded with \<^verbatim>\<open>=\<close>.
\<close>

definition base64_alphabet :: string where
  "base64_alphabet = ''ABCDEFGHIJKLMNOPQRSTUVWXYZabcdefghijklmnopqrstuvwxyz0123456789+/''"

definition base64_digit :: "nat \<Rightarrow> char" where
  "base64_digit n = base64_alphabet ! (n mod 64)"

fun base64 :: "string \<Rightarrow> string" where
  "base64 [] = []"
| "base64 [a] =
     (let x = (of_char a :: nat) in
      [base64_digit (x div 4), base64_digit (x mod 4 * 16), CHR ''='', CHR ''=''])"
| "base64 [a, b] =
     (let x = (of_char a :: nat); y = (of_char b :: nat) in
      [base64_digit (x div 4), base64_digit (x mod 4 * 16 + y div 16),
       base64_digit (y mod 16 * 4), CHR ''=''])"
| "base64 (a # b # c # rest) =
     (let x = (of_char a :: nat); y = (of_char b :: nat); z = (of_char c :: nat) in
      [base64_digit (x div 4), base64_digit (x mod 4 * 16 + y div 16),
       base64_digit (y mod 16 * 4 + z div 64), base64_digit (z mod 64)] @ base64 rest)"

section \<open>Reading a request body as text\<close>

text \<open>
  \<^verbatim>\<open>request.text()\<close> decodes the bytes of the body as UTF-8 the way the Encoding Standard
  says: a leading byte order mark (EF BB BF) is dropped, and the decoder below turns the
  rest into code points, putting U+FFFD where the bytes are not UTF-8. The state of the
  decoder is the number of bytes it still needs (the standard's bytes needed less bytes
  seen), the code point so far and the bounds of the next byte; a byte out of bounds
  ends the sequence with U+FFFD and is read again as the start of the next one.
\<close>

definition has_bom :: "string \<Rightarrow> bool" where
  "has_bom raw = (take 3 raw = [CHR 0xEF, CHR 0xBB, CHR 0xBF])"

definition strip_bom :: "string \<Rightarrow> string" where
  "strip_bom raw = (if has_bom raw then drop 3 raw else raw)"

function utf8_decoder :: "nat \<Rightarrow> nat \<Rightarrow> nat \<Rightarrow> nat \<Rightarrow> nat list \<Rightarrow> nat list" where
  "utf8_decoder needed cp lower upper [] = (if needed = 0 then [] else [0xFFFD])"
| "utf8_decoder needed cp lower upper (byte # bytes) =
     (if needed = 0 then
        (if byte \<le> 0x7F then byte # utf8_decoder 0 0 0x80 0xBF bytes
         else if 0xC2 \<le> byte \<and> byte \<le> 0xDF
           then utf8_decoder 1 (byte mod 32) 0x80 0xBF bytes
         else if 0xE0 \<le> byte \<and> byte \<le> 0xEF
           then utf8_decoder 2 (byte mod 16)
                  (if byte = 0xE0 then 0xA0 else 0x80) (if byte = 0xED then 0x9F else 0xBF) bytes
         else if 0xF0 \<le> byte \<and> byte \<le> 0xF4
           then utf8_decoder 3 (byte mod 8)
                  (if byte = 0xF0 then 0x90 else 0x80) (if byte = 0xF4 then 0x8F else 0xBF) bytes
         else 0xFFFD # utf8_decoder 0 0 0x80 0xBF bytes)
      else if byte < lower \<or> upper < byte
        then 0xFFFD # utf8_decoder 0 0 0x80 0xBF (byte # bytes)
      else if needed = 1
        then (cp * 64 + byte mod 64) # utf8_decoder 0 0 0x80 0xBF bytes
      else utf8_decoder (needed - 1) (cp * 64 + byte mod 64) 0x80 0xBF bytes)"
  by pat_completeness auto
termination
  by (relation "measure (\<lambda>(needed, cp, lower, upper, bytes).
        2 * length bytes + (if needed = 0 then 0 else 1))") auto

text \<open>The UTF-8 bytes of a code point, as \<^verbatim>\<open>update(body, "utf8")\<close> writes them. The decoder
  yields no surrogate, so the text has none to pair or to replace.\<close>

definition utf8_encode :: "nat \<Rightarrow> nat list" where
  "utf8_encode cp =
     (if cp < 0x80 then [cp]
      else if cp < 0x800 then [0xC0 + cp div 64, 0x80 + cp mod 64]
      else if cp < 0x10000
        then [0xE0 + cp div 4096, 0x80 + cp div 64 mod 64, 0x80 + cp mod 64]
      else [0xF0 + cp div 262144, 0x80 + cp div 4096 mod 64, 0x80 + cp div 64 mod 64,
            0x80 + cp mod 64])"

text \<open>The text of a body, written as the bytes of its UTF-8 encoding (as every string of
  this theory is).\<close>

definition request_text :: "string \<Rightarrow> string" where
  "request_text raw =
     map char_of
       (concat (map utf8_encode (utf8_decoder 0 0 0x80 0xBF (map of_char (strip_bom raw)))))"

text \<open>Well-formed UTF-8 (the Unicode Standard, table 3-7), stated without the decoder.\<close>

definition continuation :: "nat \<Rightarrow> bool" where
  "continuation byte = (0x80 \<le> byte \<and> byte \<le> 0xBF)"

fun well_formed :: "nat list \<Rightarrow> bool" where
  "well_formed [] = True"
| "well_formed (b # bs) =
     (if b \<le> 0x7F then well_formed bs
      else if 0xC2 \<le> b \<and> b \<le> 0xDF then
        (case bs of c # cs \<Rightarrow> continuation c \<and> well_formed cs | _ \<Rightarrow> False)
      else if 0xE0 \<le> b \<and> b \<le> 0xEF then
        (case bs of
           c # d # ds \<Rightarrow>
             (if b = 0xE0 then 0xA0 \<le> c \<and> c \<le> 0xBF
              else if b = 0xED then 0x80 \<le> c \<and> c \<le> 0x9F
              else continuation c)
             \<and> continuation d \<and> well_formed ds
         | _ \<Rightarrow> False)
      else if 0xF0 \<le> b \<and> b \<le> 0xF4 then
        (case bs of
           c # d # e # es \<Rightarrow>
             (if b = 0xF0 then 0x90 \<le> c \<and> c \<le> 0xBF
              else if b = 0xF4 then 0x80 \<le> c \<and> c \<le> 0x8F
              else continuation c)
             \<and> continuation d \<and> continuation e \<and> well_formed es
         | _ \<Rightarrow> False)
      else False)"

definition well_formed_utf8 :: "string \<Rightarrow> bool" where
  "well_formed_utf8 raw = well_formed (map of_char raw)"

section \<open>The webhook endpoint\<close>

text \<open>
  \<^verbatim>\<open>POST\<close> of \<^verbatim>\<open>src/app/api/shopify-webhook/route.ts\<close>. The request is the bytes of
  its body and the three headers the handler reads (\<^verbatim>\<open>headers.get\<close> yields null for an
  absent header).
\<close>

record webhook_request =
  raw_body :: string
  hmacHeader :: "string option"
  topicHeader :: "string option"
  shopHeader :: "string option"

text \<open>What the handler writes to the console: the method, the message, and the further
  arguments (a value, a header, or the error that was caught).\<close>

datatype console_method = Console_log | Console_warn | Console_error

datatype js_error = SyntaxError | TypeError

datatype console_arg = Value "json option" | Header "string option" | Caught js_error

record console_call =
  call_method :: console_method
  message :: string
  args :: "console_arg list"

definition console_log :: "string \<Rightarrow> console_arg list \<Rightarrow> console_call" where
  "console_log msg as = \<lparr>call_method = Console_log, message = msg, args = as\<rparr>"

definition console_error :: "string \<Rightarrow> console_arg list \<Rightarrow> console_call" where
  "console_error msg as = \<lparr>call_method = Console_error, message = msg, args = as\<rparr>"

text \<open>A \<^verbatim>\<open>string | null\<close> inside a template literal.\<close>

fun template :: "string option \<Rightarrow> string" where
  "template None = ''null''"
| "template (Some s) = s"

definition placeholder_secret :: string where
  "placeholder_secret = ''your-webhook-secret''"

text \<open>\<^verbatim>\<open>process.env.SHOPIFY_WEBHOOK_SECRET || "your-webhook-secret"\<close>: the argument is the
  environment variable, \<open>None\<close> when it is not set.\<close>

definition WEBHOOK_SECRET :: "string option \<Rightarrow> string" where
  "WEBHOOK_SECRET env_value = (if truthy_str env_value then the env_value else placeholder_secret)"

text \<open>
  The signature the handler expects. \<open>hmac key msg\<close> stands for the digest bytes of
  \<^verbatim>\<open>crypto.createHmac("sha256", key).update(msg, "utf8").digest()\<close>, a function of Node's
  library and a parameter here.
\<close>

definition expectedHmac :: "(string \<Rightarrow> string \<Rightarrow> string) \<Rightarrow> string \<Rightarrow> string \<Rightarrow> string" where
  "expectedHmac hmac secret body_text = base64 (hmac secret body_text)"

text \<open>The \<^verbatim>\<open>switch\<close> on the topic. Reading \<^verbatim>\<open>payload.id\<close> of a null payload throws a
  TypeError, which is \<open>None\<close> here.\<close>

definition log_payload_id :: "string \<Rightarrow> json \<Rightarrow> console_call option" where
  "log_payload_id msg payload =
     (if payload = JNull then None
      else Some (console_log msg [Value (property payload ''id'')]))"

definition handle_topic :: "string option \<Rightarrow> string option \<Rightarrow> json \<Rightarrow> console_call option" where
  "handle_topic topic shop_domain payload =
     (if topic = Some ''orders/create'' then log_payload_id ''New order created:'' payload
      else if topic = Some ''orders/updated'' then log_payload_id ''Order updated:'' payload
      else if topic = Some ''products/create'' then log_payload_id ''New product created:'' payload
      else if topic = Some ''products/update'' then log_payload_id ''Product updated:'' payload
      else if topic = Some ''app/uninstalled''
        then Some (console_log ''App uninstalled from shop:'' [Header shop_domain])
      else Some (console_log (''Unhandled webhook topic: '' @ template topic) []))"

text \<open>
  The handler. \<open>secret\<close> is the module constant \<^verbatim>\<open>WEBHOOK_SECRET\<close>; \<open>parse\<close> stands for
  \<^verbatim>\<open>JSON.parse\<close> (\<open>None\<close> when it throws); \<open>body_text\<close> is the \<^verbatim>\<open>body\<close> of line 9. The
  result is the response and the console output in order.
\<close>

definition webhook_POST ::
  "string \<Rightarrow> (string \<Rightarrow> string \<Rightarrow> string) \<Rightarrow> (string \<Rightarrow> json option) \<Rightarrow> webhook_request
     \<Rightarrow> response \<times> console_call list" where
  "webhook_POST secret hmac parse request =
     (let body_text = request_text (raw_body request);
          received = console_log (''Webhook received: '' @ template (topicHeader request)
                                  @ '' from '' @ template (shopHeader request)) [] in
      if secret \<noteq> placeholder_secret
         \<and> hmacHeader request \<noteq> Some (expectedHmac hmac secret body_text)
      then (json_response 401 (error_body ''Invalid signature''),
            [received, console_error ''Webhook signature verification failed'' []])
      else case parse body_text of
        None \<Rightarrow>
          (json_response 400 (error_body ''Invalid JSON''),
           [received, console_error ''Failed to parse webhook payload:'' [Caught SyntaxError]])
      | Some payload \<Rightarrow>
          (case handle_topic (topicHeader request) (shopHeader request) payload of
             None \<Rightarrow>
               (json_response 500 (error_body ''Internal server error''),
                [received, console_error ''Webhook processing error:'' [Caught TypeError]])
           | Some line \<Rightarrow>
               (json_response 200 (JObj [(''success'', JBool True)]), [received, line])))"

section \<open>The push operation\<close>

text \<open>
  \<^verbatim>\<open>POST\<close> of \<^verbatim>\<open>src/app/api/push-to-shopify/route.ts\<close>. The request is what
  \<^verbatim>\<open>request.json()\<close> yields (\<open>None\<close> when it rejects) and the
  \<^verbatim>\<open>X-Supplier-Product-ID\<close> header.
\<close>

record push_request =
  json_body :: "json option"
  supplierProductId :: "string option"

text \<open>A row of \<^verbatim>\<open>store_configs\<close>: the columns the handler reads.\<close>

record store_config =
  access_token :: "string option"
  api_key :: "string option"
  api_secret :: "string option"

text \<open>What \<^verbatim>\<open>fetch\<close> and \<^verbatim>\<open>response.json()\<close> yield: the call rejects, or a response
  arrives with its status and its body (\<open>None\<close> when the body is not JSON).\<close>

datatype fetch_outcome = Fetch_rejects | Fetch_response nat "json option"

text \<open>
  The collaborators of the handler. \<open>select_store_config s\<close> is the \<^verbatim>\<open>data\<close> of the
  query on \<^verbatim>\<open>store_configs\<close> for \<^verbatim>\<open>store_url = s\<close>, \<^verbatim>\<open>is_active = true\<close>, \<^verbatim>\<open>.single()\<close>
  (null when it yields no row); \<open>getToken\<close> is \<^verbatim>\<open>TokenManager.getToken\<close>, the legacy OAuth
  token store; \<open>fetch\<close> is the call to the external platform.
\<close>

type_synonym headers = "(string \<times> string) list"

record push_env =
  select_store_config :: "json \<Rightarrow> store_config option"
  getToken :: "json \<Rightarrow> string option"
  fetch :: "json \<Rightarrow> headers \<Rightarrow> json \<Rightarrow> fetch_outcome"

text \<open>
  The calls the handler makes, in order: the query on \<^verbatim>\<open>store_configs\<close>, the read of the
  legacy token store, the \<^verbatim>\<open>POST\<close> to
  \<^verbatim>\<open>https://${shop}/admin/api/2023-10/products.json\<close> (shop, headers, and the product of the
  body \<^verbatim>\<open>{product}\<close>), and the attempt to insert into \<^verbatim>\<open>product_shopify_mappings\<close> (supplier product
  id, the platform's product id before \<^verbatim>\<open>toString()\<close>, shop). Console output of this handler
  is not recorded.
\<close>

datatype push_event =
    Select_store_config json
  | Get_token json
  | Fetch json headers json
  | Insert_mapping string json json

text \<open>Lines 7 to 14: the two checks that answer 400.\<close>

definition missing_data :: "json \<Rightarrow> bool" where
  "missing_data b = (\<not> truthy_opt (property b ''product'') \<or> \<not> truthy_opt (property b ''shop''))"

text \<open>\<^verbatim>\<open>product.variants[0]?.price\<close>, for \<^verbatim>\<open>product.variants\<close> an array.\<close>

definition first_variant_price :: "json \<Rightarrow> json option" where
  "first_variant_price variants =
     (case index0 variants of
        None \<Rightarrow> None
      | Some v \<Rightarrow> if v = JNull then None else property v ''price'')"

definition invalid_product :: "json \<Rightarrow> bool" where
  "invalid_product product =
     (\<not> truthy_opt (property product ''title'')
      \<or> \<not> truthy_opt (property product ''variants'')
      \<or> \<not> isArray (the (property product ''variants''))
      \<or> \<not> truthy_opt (first_variant_price (the (property product ''variants''))))"

text \<open>
  The claim's words, for comparison with the check of the handler: the product has a priced
  variant when \<^verbatim>\<open>variants\<close> is an array and some element of it has a price. The handler looks
  at the first element only.
\<close>

definition has_priced_variant :: "json \<Rightarrow> bool" where
  "has_priced_variant product =
     (case property product ''variants'' of
        Some (JArr variants) \<Rightarrow> list_ex (\<lambda>v. truthy_opt (property v ''price'')) variants
      | _ \<Rightarrow> False)"

text \<open>
  A value inside a template literal is converted to a string. The conversion throws a
  TypeError for an object that has a member named \<^verbatim>\<open>toString\<close> (the member is not a function
  and hides the inherited one, and \<^verbatim>\<open>valueOf\<close> yields no primitive) and for an array with
  such an element (an array is joined, each element other than null being converted); it
  returns for every other value, and for \<^verbatim>\<open>undefined\<close>.
\<close>

fun toString_throws :: "json \<Rightarrow> bool" where
  "toString_throws (JObj kvs) = (''toString'' \<in> set (map fst kvs))"
| "toString_throws (JArr xs) = (\<exists>x \<in> set xs. toString_throws x)"
| "toString_throws v = False"

fun toString_throws_opt :: "json option \<Rightarrow> bool" where
  "toString_throws_opt None = False"
| "toString_throws_opt (Some v) = toString_throws v"

text \<open>\<^verbatim>\<open>v?.k\<close> on a value that may be \<^verbatim>\<open>undefined\<close> or null.\<close>

fun optional_property :: "json option \<Rightarrow> string \<Rightarrow> json option" where
  "optional_property None k = None"
| "optional_property (Some v) k = property v k"

definition internal_error :: response where
  "internal_error =
     json_response 500 (JObj [(''error'', JStr ''Internal server error''), (''details'', JObj [])])"

text \<open>Lines 20 to 49: the headers of the call, or the 401 response, with the stores that
  were read.\<close>

definition resolve_headers :: "push_env \<Rightarrow> json \<Rightarrow> (response + headers) \<times> push_event list" where
  "resolve_headers env shop' =
     (let headers = [(''Content-Type'', ''application/json'')] in
      case select_store_config env shop' of
        Some storeConfig \<Rightarrow>
          if truthy_str (access_token storeConfig)
          then (Inr (headers @ [(''X-Shopify-Access-Token'', the (access_token storeConfig))]),
                [Select_store_config shop'])
          else if truthy_str (api_key storeConfig) \<and> truthy_str (api_secret storeConfig)
          then (let credentials =
                      base64 (the (api_key storeConfig) @ '':'' @ the (api_secret storeConfig))
                in (Inr (headers @ [(''Authorization'', ''Basic '' @ credentials)]),
                    [Select_store_config shop']))
          else (Inl (json_response 401
                       (error_body ''No valid credentials found for direct API store'')),
                [Select_store_config shop'])
      | None \<Rightarrow>
          (let accessToken = getToken env shop' in
           if \<not> truthy_str accessToken
           then (Inl (json_response 401
                        (error_body ''Missing access token. Please connect to Shopify first.'')),
                 [Select_store_config shop', Get_token shop'])
           else (Inr (headers @ [(''X-Shopify-Access-Token'', the accessToken)]),
                 [Select_store_config shop', Get_token shop'])))"

text \<open>\<^verbatim>\<open>response.ok\<close>.\<close>

definition ok :: "nat \<Rightarrow> bool" where
  "ok st = (200 \<le> st \<and> st \<le> 299)"

text \<open>\<^verbatim>\<open>data.errors || data || "Shopify error"\<close>, for \<^verbatim>\<open>data\<close> other than null.\<close>

definition relayed_error :: "json \<Rightarrow> json" where
  "relayed_error data =
     (if truthy_opt (property data ''errors'') then the (property data ''errors'')
      else if truthy data then data
      else JStr ''Shopify error'')"

text \<open>\<^verbatim>\<open>NextResponse.json(body, {status})\<close> throws for a status outside 200 to 599 and for a
  status that allows no body.\<close>

definition refused_status :: "nat \<Rightarrow> bool" where
  "refused_status st = (st < 200 \<or> 599 < st \<or> st = 204 \<or> st = 205 \<or> st = 304)"

text \<open>
  Lines 60 to 106: what follows the call. Reading a property of a null body throws. The
  status of a call that is not ok is passed on, unless \<^verbatim>\<open>NextResponse.json\<close> refuses it. After
  a call that is ok, line 70 converts \<^verbatim>\<open>data.product?.title\<close> and \<^verbatim>\<open>data.product?.id\<close> to
  strings, which may throw; past that line \<^verbatim>\<open>id.toString()\<close> returns. A failing insert of the
  mapping is logged and changes nothing in the response.
\<close>

definition after_fetch :: "json \<Rightarrow> string option \<Rightarrow> fetch_outcome \<Rightarrow> response \<times> push_event list" where
  "after_fetch shop' supplier_id outcome =
     (case outcome of
        Fetch_rejects \<Rightarrow> (internal_error, [])
      | Fetch_response st None \<Rightarrow> (internal_error, [])
      | Fetch_response st (Some data) \<Rightarrow>
          if data = JNull then (internal_error, [])
          else if \<not> ok st
          then (if refused_status st then (internal_error, [])
                else (json_response st (JObj [(''error'', relayed_error data)]), []))
          else if toString_throws_opt (optional_property (property data ''product'') ''title'')
                  \<or> toString_throws_opt (optional_property (property data ''product'') ''id'')
          then (internal_error, [])
          else
            (json_response 200
               (obj [(''success'', Some (JBool True)), (''product'', property data ''product'')]),
             if truthy_opt (property data ''product'')
                \<and> truthy_opt (property (the (property data ''product'')) ''id'')
                \<and> truthy_str supplier_id
             then [Insert_mapping (the supplier_id)
                     (the (property (the (property data ''product'')) ''id'')) shop']
             else []))"

text \<open>
  The handler. Line 52 converts \<^verbatim>\<open>shop\<close> to a string for the console before the call is
  made; when that throws, the \<^verbatim>\<open>catch\<close> answers 500 and nothing is sent. A \<open>Fetch\<close> event
  says that \<^verbatim>\<open>fetch\<close> was called with these headers.
\<close>

definition push_POST :: "push_env \<Rightarrow> push_request \<Rightarrow> response \<times> push_event list" where
  "push_POST env request =
     (case json_body request of
        None \<Rightarrow> (internal_error, [])
      | Some b \<Rightarrow>
          if b = JNull then (internal_error, [])
          else if missing_data b
          then (json_response 400 (error_body ''Missing shop or product data''), [])
          else
            let product = the (property b ''product''); shop' = the (property b ''shop'') in
            if invalid_product product
            then (json_response 400
                    (error_body
                       ''Product must have a title and at least one variant with a price''),
                  [])
            else
              (case resolve_headers env shop' of
                 (Inl unauthorized, reads) \<Rightarrow> (unauthorized, reads)
               | (Inr headers, reads) \<Rightarrow>
                   if toString_throws shop' then (internal_error, reads)
                   else
                     (let (resp, writes) =
                            after_fetch shop' (supplierProductId request)
                              (fetch env shop' headers product)
                      in (resp, reads @ [Fetch shop' headers product] @ writes))))"

text \<open>What a run sent to the external platform (the headers of each call, in order) and
  which shops it looked up in the legacy token store.\<close>

fun sent_headers :: "push_event list \<Rightarrow> headers list" where
  "sent_headers [] = []"
| "sent_headers (Fetch s h p # es) = h # sent_headers es"
| "sent_headers (e # es) = sent_headers es"

fun token_store_reads :: "push_event list \<Rightarrow> json list" where
  "token_store_reads [] = []"
| "token_store_reads (Get_token s # es) = s # token_store_reads es"
| "token_store_reads (e # es) = token_store_reads es"

section \<open>Properties of the Map model\<close>

lemma map_set_keys_present: "k \<in> set (map fst m) \<Longrightarrow> map fst (map_set k v m) = map fst m"
  by (induction m) force+

lemma map_set_new: "k \<notin> set (map fst m) \<Longrightarrow> map_set k v m = m @ [(k, v)]"
  by (induction m) auto

lemma map_of_map_set: "map_of (map_set k v m) = (map_of m)(k \<mapsto> v)"
  by (induction m) (auto simp: fun_eq_iff)

lemma map_set_distinct: "distinct (map fst m) \<Longrightarrow> distinct (map fst (map_set k v m))"
  by (cases "k \<in> set (map fst m)") (simp_all add: map_set_keys_present map_set_new)

lemma map_has_iff: "map_has k m \<longleftrightarrow> map_of m k \<noteq> None"
  by (simp add: map_has_def map_of_eq_None_iff)

section \<open>Properties of the merge\<close>

lemma add_connection_step:
  "map_of (add_connection m c) = (map_of m)(storeUrl c \<mapsto> connection_entry c)"
  by (simp add: add_connection_def map_of_map_set)

lemma add_token_store_step:
  "map_of (add_token_store m t) k =
     (case map_of m k of
        Some e \<Rightarrow> Some e
      | None \<Rightarrow> if shop t = k then Some (token_entry t) else None)"
  by (auto simp: add_token_store_def map_has_iff map_of_map_set split: option.splits)

lemma add_token_store_step_append: "\<exists>r. add_token_store m t = m @ r"
  by (cases "map_has (shop t) m") (auto simp: add_token_store_def map_has_def map_set_new)

lemma add_connection_step_distinct:
  "distinct (map fst m) \<Longrightarrow> distinct (map fst (add_connection m c))"
  by (simp add: add_connection_def map_set_distinct)

lemma add_token_store_step_distinct:
  "distinct (map fst m) \<Longrightarrow> distinct (map fst (add_token_store m t))"
  by (simp add: add_token_store_def map_set_distinct)

lemma add_connection_lookup:
  "map_of (foldl add_connection m conns) k =
     (case find (\<lambda>c. storeUrl c = k) (rev conns) of
        Some c \<Rightarrow> Some (connection_entry c)
      | None \<Rightarrow> map_of m k)"
proof (induction conns rule: rev_induct)
  case Nil
  show ?case by simp
next
  case (snoc c cs)
  show ?case by (simp add: snoc add_connection_step)
qed

lemma add_connection_distinct:
  "distinct (map fst m) \<Longrightarrow> distinct (map fst (foldl add_connection m conns))"
  by (induction conns arbitrary: m) (simp_all add: add_connection_step_distinct)

lemma add_token_store_prefix:
  "\<exists>rest. foldl add_token_store m toks = m @ rest"
proof (induction toks arbitrary: m)
  case Nil
  show ?case by simp
next
  case (Cons t ts)
  obtain r where r: "add_token_store m t = m @ r"
    using add_token_store_step_append by blast
  from Cons [of "m @ r"] obtain r' where "foldl add_token_store (m @ r) ts = (m @ r) @ r'" by blast
  with r show ?case by simp
qed

lemma add_token_store_lookup:
  "map_of (foldl add_token_store m toks) k =
     (case map_of m k of
        Some e \<Rightarrow> Some e
      | None \<Rightarrow> map_option token_entry (find (\<lambda>t. shop t = k) toks))"
proof (induction toks arbitrary: m)
  case Nil
  show ?case by (simp split: option.splits)
next
  case (Cons t ts)
  show ?case
    by (simp add: Cons add_token_store_step split: option.splits)
qed

lemma add_token_store_distinct:
  "distinct (map fst m) \<Longrightarrow> distinct (map fst (foldl add_token_store m toks))"
  by (induction toks arbitrary: m) (simp_all add: add_token_store_step_distinct)

lemma build_storeMap_distinct: "distinct (map fst (build_storeMap conns toks))"
  by (simp add: build_storeMap_def add_token_store_distinct add_connection_distinct)

lemma build_storeMap_lookup:
  "map_of (build_storeMap conns toks) k =
     (case find (\<lambda>c. storeUrl c = k) (rev conns) of
        Some c \<Rightarrow> Some (connection_entry c)
      | None \<Rightarrow> map_option token_entry (find (\<lambda>t. shop t = k) toks))"
  by (simp add: build_storeMap_def add_token_store_lookup add_connection_lookup split: option.splits)

text \<open>Every entry of the map sits under its own shop key.\<close>

lemma build_storeMap_keyed:
  assumes "(k, e) \<in> set (build_storeMap conns toks)"
  shows "entry_shop e = k"
proof -
  from assms have "map_of (build_storeMap conns toks) k = Some e"
    by (simp add: build_storeMap_distinct)
  then show ?thesis
    by (auto simp: build_storeMap_lookup connection_entry_def token_entry_def 
         split: option.splits dest: find_Some_iff [THEN iffD1])
qed

lemma filter_fst_distinct:
  "distinct (map fst m) \<Longrightarrow> map_of m k = Some v \<Longrightarrow> filter (\<lambda>p. fst p = k) m = [(k, v)]"
proof (induction m)
  case Nil
  then show ?case by simp
next
  case (Cons p m)
  show ?case
  proof (cases "fst p = k")
    case True
    with Cons.prems have "k \<notin> fst ` set m" by simp
    then have "filter (\<lambda>p. fst p = k) m = []"
      by (force simp: filter_empty_conv)
    with True Cons.prems show ?thesis by (cases p) auto
  next
    case False
    with Cons show ?thesis by (cases p) auto
  qed
qed

lemma filter_fst_none:
  "map_of m k = None \<Longrightarrow> filter (\<lambda>p. fst p = k) m = []"
  by (auto simp: filter_empty_conv map_of_eq_None_iff)

lemma merged_stores_filter:
  "filter (\<lambda>e. entry_shop e = k) (merged_stores conns toks) =
     (case map_of (build_storeMap conns toks) k of None \<Rightarrow> [] | Some e \<Rightarrow> [e])"
proof -
  have eq: "filter (\<lambda>e. entry_shop e = k) (map snd (build_storeMap conns toks)) =
        map snd (filter (\<lambda>p. fst p = k) (build_storeMap conns toks))"
    unfolding filter_map
    by (rule arg_cong [where f = "map snd"], rule filter_cong) (auto dest: build_storeMap_keyed)
  show ?thesis
    by (simp add: merged_stores_def map_values_def eq filter_fst_distinct filter_fst_none
        build_storeMap_distinct split: option.splits)
qed

lemma find_SomeD: "find P xs = Some x \<Longrightarrow> P x \<and> x \<in> set xs"
  by (induction xs) (auto split: if_splits)

lemma property_Some_truthy: "property v k = Some x \<Longrightarrow> truthy v"
  by (cases v) simp_all

lemma primary_key_found:
  assumes "k \<in> storeUrl ` set conns"
  shows "\<exists>c. find (\<lambda>c. storeUrl c = k) (rev conns) = Some c \<and> c \<in> set conns \<and> storeUrl c = k"
proof (cases "find (\<lambda>c. storeUrl c = k) (rev conns)")
  case None
  with assms show ?thesis by (auto simp: find_None_iff)
next
  case (Some c)
  then have "storeUrl c = k \<and> c \<in> set (rev conns)" by (rule find_SomeD)
  with Some show ?thesis by simp
qed

lemma merged_stores_primary_prefix:
  "take (length (merged_stores conns [])) (merged_stores conns toks) = merged_stores conns []"
proof -
  obtain r where "build_storeMap conns toks = build_storeMap conns [] @ r"
    unfolding build_storeMap_def using add_token_store_prefix by auto
  then show ?thesis by (simp add: merged_stores_def map_values_def)
qed

section \<open>Claims about the store list\<close>

text \<open>
  Claim C3. A key of the primary registry keeps its primary entry whatever the legacy
  token store holds (timestamps play no part): the entries under that key are the same as
  with an empty legacy list, and there is exactly one, built from a primary connection.
  With one primary connection \<open>c\<close> and one legacy row \<open>t\<close> under the same key the list is
  the entry of \<open>c\<close> alone, with the name and the update time of \<open>c\<close>; under different
  keys it has exactly two entries, the primary one first. The entries of the primary
  registry always form the front of the list. The handler, called with the session of a
  seller, answers 200 with these two entries and \<^verbatim>\<open>totalStores\<close> 2.
\<close>

theorem primary_entry_wins:
  "(k \<in> storeUrl ` set sellerConnections \<longrightarrow>
      filter (\<lambda>e. entry_shop e = k) (merged_stores sellerConnections tokenStores)
        = filter (\<lambda>e. entry_shop e = k) (merged_stores sellerConnections [])
      \<and> (\<exists>c \<in> set sellerConnections. storeUrl c = k \<and>
            filter (\<lambda>e. entry_shop e = k) (merged_stores sellerConnections tokenStores)
              = [connection_entry c]))
   \<and> (shop t = storeUrl c \<longrightarrow>
        merged_stores [c] [t] = [connection_entry c]
        \<and> entry_name (connection_entry c) = storeName c
        \<and> entry_lastUpdated (connection_entry c) = updatedAt c)
   \<and> (shop t \<noteq> storeUrl c \<longrightarrow>
        merged_stores [c] [t] = [connection_entry c, token_entry t]
        \<and> entry_source (connection_entry c) = ''seller_connections''
        \<and> entry_source (token_entry t) = ''shopify_tokens'')
   \<and> take (length (merged_stores sellerConnections []))
          (merged_stores sellerConnections tokenStores) = merged_stores sellerConnections []
   \<and> (shop t \<noteq> storeUrl c \<and> truthy_str sessionToken
        \<and> verifySession env (the sessionToken) = Returns r \<and> success r \<and> user r = Some u
        \<and> property u ''userType'' = Some (JStr ''seller'')
        \<and> getSellerStoreConnections env (property u ''username'') = Returns [c]
        \<and> getUserStores env (property u ''username'') = Returns [t] \<longrightarrow>
        stores_GET env sessionToken =
          json_response 200
            (obj [(''stores'',
                    Some (JArr [entry_json (connection_entry c), entry_json (token_entry t)])),
                  (''username'', property u ''username''),
                  (''totalStores'', Some (JNum 2))]))"
proof -
  have one: "filter (\<lambda>e. entry_shop e = k) (merged_stores sellerConnections tokenStores)
        = filter (\<lambda>e. entry_shop e = k) (merged_stores sellerConnections [])
      \<and> (\<exists>c \<in> set sellerConnections. storeUrl c = k \<and>
            filter (\<lambda>e. entry_shop e = k) (merged_stores sellerConnections tokenStores)
              = [connection_entry c])"
    if "k \<in> storeUrl ` set sellerConnections"
  proof -
    from primary_key_found [OF that] obtain c where
      c: "find (\<lambda>c. storeUrl c = k) (rev sellerConnections) = Some c"
         "c \<in> set sellerConnections" "storeUrl c = k" by blast
    have "filter (\<lambda>e. entry_shop e = k) (merged_stores sellerConnections ts) = [connection_entry c]" for ts
      by (simp add: merged_stores_filter build_storeMap_lookup c(1))
    with c show ?thesis by auto
  qed
  have two: "merged_stores [c] [t] = [connection_entry c]" if "shop t = storeUrl c"
    using that
    by (simp add: merged_stores_def map_values_def build_storeMap_def add_connection_def
        add_token_store_def map_has_def)
  have three: "merged_stores [c] [t] = [connection_entry c, token_entry t]" if "shop t \<noteq> storeUrl c"
    using that
    by (simp add: merged_stores_def map_values_def build_storeMap_def add_connection_def
        add_token_store_def map_has_def)
  have names: "entry_name (connection_entry c) = storeName c"
    "entry_lastUpdated (connection_entry c) = updatedAt c"
    "entry_source (connection_entry c) = ''seller_connections''"
    "entry_source (token_entry t) = ''shopify_tokens''"
    by (simp_all add: connection_entry_def token_entry_def)
  have four: "stores_GET env sessionToken =
          json_response 200
            (obj [(''stores'',
                    Some (JArr [entry_json (connection_entry c), entry_json (token_entry t)])),
                  (''username'', property u ''username''),
                  (''totalStores'', Some (JNum 2))])"
    if "shop t \<noteq> storeUrl c" "truthy_str sessionToken"
       "verifySession env (the sessionToken) = Returns r" "success r" "user r = Some u"
       "property u ''userType'' = Some (JStr ''seller'')"
       "getSellerStoreConnections env (property u ''username'') = Returns [c]"
       "getUserStores env (property u ''username'') = Returns [t]"
  proof -
    from that(6) have "truthy u" by (rule property_Some_truthy)
    with that three [OF that(1)] show ?thesis
      by (simp add: stores_GET_def Let_def)
  qed
  show ?thesis
    using one two three four names merged_stores_primary_prefix [of sellerConnections tokenStores]
    by blast
qed

text \<open>The theorem at a legacy row that is newer than the primary connection of the same
  key, and at the handler for a seller with one store in each source.\<close>

theorem primary_entry_wins_witness:
  "merged_stores
     [\<lparr>storeUrl = ''a.myshopify.com'', storeName = ''Alpha'', connectedAt = ''2024-01-01'',
       updatedAt = ''2024-01-02'', connectionType = ''oauth''\<rparr>]
     [\<lparr>shop = ''a.myshopify.com'', created_at = ''2024-05-01'', updated_at = ''2024-05-02''\<rparr>]
   = [\<lparr>entry_shop = ''a.myshopify.com'', entry_name = ''Alpha'',
       entry_connectedAt = ''2024-01-01'', entry_lastUpdated = ''2024-01-02'',
       entry_type = ''oauth'', entry_source = ''seller_connections''\<rparr>]
   \<and> stores_GET
       \<lparr>verifySession = (\<lambda>token. Returns \<lparr>success = True,
            user = Some (JObj [(''username'', JStr ''sam''), (''userType'', JStr ''seller'')]),
            error = None\<rparr>),
        getSellerStoreConnections = (\<lambda>username. Returns
          [\<lparr>storeUrl = ''a.myshopify.com'', storeName = ''Alpha'', connectedAt = ''2024-01-01'',
            updatedAt = ''2024-01-02'', connectionType = ''oauth''\<rparr>]),
        getUserStores = (\<lambda>username. Returns
          [\<lparr>shop = ''b.myshopify.com'', created_at = ''2024-05-01'',
            updated_at = ''2024-05-02''\<rparr>])\<rparr>
       (Some ''token'')
     = json_response 200
         (JObj [(''stores'', JArr
                  [JObj [(''shop'', JStr ''a.myshopify.com''), (''name'', JStr ''Alpha''),
                         (''connectedAt'', JStr ''2024-01-01''),
                         (''lastUpdated'', JStr ''2024-01-02''),
                         (''type'', JStr ''oauth''), (''source'', JStr ''seller_connections'')],
                   JObj [(''shop'', JStr ''b.myshopify.com''), (''name'', JStr ''b.myshopify.com''),
                         (''connectedAt'', JStr ''2024-05-01''),
                         (''lastUpdated'', JStr ''2024-05-02''),
                         (''type'', JStr ''legacy''), (''source'', JStr ''shopify_tokens'')]]),
                (''username'', JStr ''sam''),
                (''totalStores'', JNum 2)])"
proof -
  let ?c = "\<lparr>storeUrl = ''a.myshopify.com'', storeName = ''Alpha'', connectedAt = ''2024-01-01'',
       updatedAt = ''2024-01-02'', connectionType = ''oauth''\<rparr>"
  let ?t = "\<lparr>shop = ''a.myshopify.com'', created_at = ''2024-05-01'', updated_at = ''2024-05-02''\<rparr>"
  let ?t' = "\<lparr>shop = ''b.myshopify.com'', created_at = ''2024-05-01'', updated_at = ''2024-05-02''\<rparr>"
  let ?u = "JObj [(''username'', JStr ''sam''), (''userType'', JStr ''seller'')]"
  let ?r = "\<lparr>success = True, user = Some ?u, error = None\<rparr>"
  let ?env = "\<lparr>verifySession = (\<lambda>token. Returns ?r),
        getSellerStoreConnections = (\<lambda>username. Returns [?c]),
        getUserStores = (\<lambda>username. Returns [?t'])\<rparr>"
  have same: "shop ?t = storeUrl ?c" by simp
  have A: "merged_stores [?c] [?t] = [connection_entry ?c]"
    using primary_entry_wins [where k = "''a.myshopify.com''" and sellerConnections = "[?c]"
        and tokenStores = "[?t]" and c = ?c and t = ?t and sessionToken = "Some ''token''"
        and env = ?env and r = ?r and u = ?u] same
    by blast
  have hyps: "shop ?t' \<noteq> storeUrl ?c \<and> truthy_str (Some ''token'')
        \<and> verifySession ?env (the (Some ''token'')) = Returns ?r \<and> success ?r \<and> user ?r = Some ?u
        \<and> property ?u ''userType'' = Some (JStr ''seller'')
        \<and> getSellerStoreConnections ?env (property ?u ''username'') = Returns [?c]
        \<and> getUserStores ?env (property ?u ''username'') = Returns [?t']"
    by simp
  have B: "stores_GET ?env (Some ''token'') =
          json_response 200
            (obj [(''stores'',
                    Some (JArr [entry_json (connection_entry ?c), entry_json (token_entry ?t')])),
                  (''username'', property ?u ''username''),
                  (''totalStores'', Some (JNum 2))])"
    using primary_entry_wins [where k = "''a.myshopify.com''" and sellerConnections = "[?c]"
        and tokenStores = "[?t']" and c = ?c and t = ?t' and sessionToken = "Some ''token''"
        and env = ?env and r = ?r and u = ?u] hyps
    by blast
  have ev: "obj [(''stores'',
                    Some (JArr [entry_json (connection_entry ?c), entry_json (token_entry ?t')])),
                  (''username'', property ?u ''username''),
                  (''totalStores'', Some (JNum 2))]
     = JObj [(''stores'', JArr
                  [JObj [(''shop'', JStr ''a.myshopify.com''), (''name'', JStr ''Alpha''),
                         (''connectedAt'', JStr ''2024-01-01''),
                         (''lastUpdated'', JStr ''2024-01-02''),
                         (''type'', JStr ''oauth''), (''source'', JStr ''seller_connections'')],
                   JObj [(''shop'', JStr ''b.myshopify.com''), (''name'', JStr ''b.myshopify.com''),
                         (''connectedAt'', JStr ''2024-05-01''),
                         (''lastUpdated'', JStr ''2024-05-02''),
                         (''type'', JStr ''legacy''), (''source'', JStr ''shopify_tokens'')]]),
                (''username'', JStr ''sam''),
                (''totalStores'', JNum 2)]"
    by (simp add: obj_def List.map_filter_def entry_json_def connection_entry_def token_entry_def)
  have ce: "connection_entry ?c = \<lparr>entry_shop = ''a.myshopify.com'', entry_name = ''Alpha'',
       entry_connectedAt = ''2024-01-01'', entry_lastUpdated = ''2024-01-02'',
       entry_type = ''oauth'', entry_source = ''seller_connections''\<rparr>"
    by (simp add: connection_entry_def)
  from A have A': "merged_stores [?c] [?t] = [\<lparr>entry_shop = ''a.myshopify.com'', entry_name = ''Alpha'',
       entry_connectedAt = ''2024-01-01'', entry_lastUpdated = ''2024-01-02'',
       entry_type = ''oauth'', entry_source = ''seller_connections''\<rparr>]"
    by (simp only: ce)
  from B have B': "stores_GET ?env (Some ''token'') =
          json_response 200
            (JObj [(''stores'', JArr
                  [JObj [(''shop'', JStr ''a.myshopify.com''), (''name'', JStr ''Alpha''),
                         (''connectedAt'', JStr ''2024-01-01''),
                         (''lastUpdated'', JStr ''2024-01-02''),
                         (''type'', JStr ''oauth''), (''source'', JStr ''seller_connections'')],
                   JObj [(''shop'', JStr ''b.myshopify.com''), (''name'', JStr ''b.myshopify.com''),
                         (''connectedAt'', JStr ''2024-05-01''),
                         (''lastUpdated'', JStr ''2024-05-02''),
                         (''type'', JStr ''legacy''), (''source'', JStr ''shopify_tokens'')]]),
                (''username'', JStr ''sam''),
                (''totalStores'', JNum 2)])"
    by (simp only: ev)
  show ?thesis by (rule conjI [OF A' B'])
qed

text \<open>
  Claim C6, as amended. \<open>find P (rev xs) = Some c\<close> says that \<open>c\<close> is the last element of
  \<open>xs\<close> with \<open>P\<close>, \<open>find P xs = Some t\<close> that \<open>t\<close> is the first. Among the primary connections
  under one key the last one gives the entry; among the legacy rows under one key (a key
  the primary registry does not have) the first one gives the entry, and later rows under
  that key are skipped by the \<^verbatim>\<open>has\<close> check.
\<close>

theorem duplicate_keys_within_a_source:
  "(find (\<lambda>c. storeUrl c = k) (rev sellerConnections) = Some c \<longrightarrow>
      filter (\<lambda>e. entry_shop e = k) (merged_stores sellerConnections tokenStores)
        = [connection_entry c])
   \<and> (k \<notin> storeUrl ` set sellerConnections \<longrightarrow>
        find (\<lambda>t. shop t = k) tokenStores = Some t \<longrightarrow>
        filter (\<lambda>e. entry_shop e = k) (merged_stores sellerConnections tokenStores)
          = [token_entry t])"
proof -
  have "find (\<lambda>c. storeUrl c = k) (rev sellerConnections) = None"
    if "k \<notin> storeUrl ` set sellerConnections"
    using that by (auto simp: find_None_iff)
  then show ?thesis
    by (simp add: merged_stores_filter build_storeMap_lookup)
qed


text \<open>The theorem at two primary connections and at two legacy rows under one key.\<close>

theorem duplicate_keys_within_a_source_witness:
  "filter (\<lambda>e. entry_shop e = ''a.myshopify.com'')
     (merged_stores
        [\<lparr>storeUrl = ''a.myshopify.com'', storeName = ''Old name'', connectedAt = ''2024-01-01'',
          updatedAt = ''2024-01-02'', connectionType = ''oauth''\<rparr>,
         \<lparr>storeUrl = ''a.myshopify.com'', storeName = ''New name'', connectedAt = ''2024-02-01'',
          updatedAt = ''2024-02-02'', connectionType = ''direct''\<rparr>]
        [])
   = [\<lparr>entry_shop = ''a.myshopify.com'', entry_name = ''New name'',
       entry_connectedAt = ''2024-02-01'', entry_lastUpdated = ''2024-02-02'',
       entry_type = ''direct'', entry_source = ''seller_connections''\<rparr>]
   \<and> filter (\<lambda>e. entry_shop e = ''b.myshopify.com'')
     (merged_stores []
        [\<lparr>shop = ''b.myshopify.com'', created_at = ''2024-03-01'', updated_at = ''2024-03-02''\<rparr>,
         \<lparr>shop = ''b.myshopify.com'', created_at = ''2024-04-01'', updated_at = ''2024-04-02''\<rparr>])
   = [\<lparr>entry_shop = ''b.myshopify.com'', entry_name = ''b.myshopify.com'',
       entry_connectedAt = ''2024-03-01'', entry_lastUpdated = ''2024-03-02'',
       entry_type = ''legacy'', entry_source = ''shopify_tokens''\<rparr>]"
proof -
  let ?c1 = "\<lparr>storeUrl = ''a.myshopify.com'', storeName = ''Old name'',
      connectedAt = ''2024-01-01'', updatedAt = ''2024-01-02'', connectionType = ''oauth''\<rparr>"
  let ?c2 = "\<lparr>storeUrl = ''a.myshopify.com'', storeName = ''New name'',
      connectedAt = ''2024-02-01'', updatedAt = ''2024-02-02'', connectionType = ''direct''\<rparr>"
  let ?t1 = "\<lparr>shop = ''b.myshopify.com'', created_at = ''2024-03-01'', updated_at = ''2024-03-02''\<rparr>"
  let ?t2 = "\<lparr>shop = ''b.myshopify.com'', created_at = ''2024-04-01'', updated_at = ''2024-04-02''\<rparr>"
  have last: "find (\<lambda>c. storeUrl c = ''a.myshopify.com'') (rev [?c1, ?c2]) = Some ?c2"
    by simp
  have absent: "''b.myshopify.com'' \<notin> storeUrl ` set ([] :: seller_connection list)"
    by simp
  have first: "find (\<lambda>t. shop t = ''b.myshopify.com'') [?t1, ?t2] = Some ?t1"
    by simp
  have A: "filter (\<lambda>e. entry_shop e = ''a.myshopify.com'') (merged_stores [?c1, ?c2] [])
      = [connection_entry ?c2]"
    using duplicate_keys_within_a_source [where k = "''a.myshopify.com''"
        and sellerConnections = "[?c1, ?c2]" and tokenStores = "[]" and c = ?c2 and t = ?t1] last
    by blast
  have B: "filter (\<lambda>e. entry_shop e = ''b.myshopify.com'') (merged_stores [] [?t1, ?t2])
      = [token_entry ?t1]"
    using duplicate_keys_within_a_source [where k = "''b.myshopify.com''"
        and sellerConnections = "[]" and tokenStores = "[?t1, ?t2]" and c = ?c2 and t = ?t1]
      absent first
    by blast
  have ce: "connection_entry ?c2 = \<lparr>entry_shop = ''a.myshopify.com'', entry_name = ''New name'',
       entry_connectedAt = ''2024-02-01'', entry_lastUpdated = ''2024-02-02'',
       entry_type = ''direct'', entry_source = ''seller_connections''\<rparr>"
    by (simp add: connection_entry_def)
  have te: "token_entry ?t1 = \<lparr>entry_shop = ''b.myshopify.com'', entry_name = ''b.myshopify.com'',
       entry_connectedAt = ''2024-03-01'', entry_lastUpdated = ''2024-03-02'',
       entry_type = ''legacy'', entry_source = ''shopify_tokens''\<rparr>"
    by (simp add: token_entry_def)
  from A have A': "filter (\<lambda>e. entry_shop e = ''a.myshopify.com'') (merged_stores [?c1, ?c2] [])
      = [\<lparr>entry_shop = ''a.myshopify.com'', entry_name = ''New name'',
       entry_connectedAt = ''2024-02-01'', entry_lastUpdated = ''2024-02-02'',
       entry_type = ''direct'', entry_source = ''seller_connections''\<rparr>]"
    by (simp only: ce)
  from B have B': "filter (\<lambda>e. entry_shop e = ''b.myshopify.com'') (merged_stores [] [?t1, ?t2])
      = [\<lparr>entry_shop = ''b.myshopify.com'', entry_name = ''b.myshopify.com'',
       entry_connectedAt = ''2024-03-01'', entry_lastUpdated = ''2024-03-02'',
       entry_type = ''legacy'', entry_source = ''shopify_tokens''\<rparr>]"
    by (simp only: te)
  show ?thesis by (rule conjI [OF A' B'])
qed

text \<open>
  Claim C6 as stated fails for the legacy source: of two legacy rows under one key the
  earlier one stays in the list, and it differs from the entry of the later one.
\<close>

theorem legacy_duplicate_counterexample:
  "merged_stores []
     [\<lparr>shop = ''b.myshopify.com'', created_at = ''2024-03-01'', updated_at = ''2024-03-02''\<rparr>,
      \<lparr>shop = ''b.myshopify.com'', created_at = ''2024-04-01'', updated_at = ''2024-04-02''\<rparr>]
   = [token_entry
        \<lparr>shop = ''b.myshopify.com'', created_at = ''2024-03-01'', updated_at = ''2024-03-02''\<rparr>]
   \<and> token_entry
        \<lparr>shop = ''b.myshopify.com'', created_at = ''2024-03-01'', updated_at = ''2024-03-02''\<rparr>
     \<noteq> token_entry
        \<lparr>shop = ''b.myshopify.com'', created_at = ''2024-04-01'', updated_at = ''2024-04-02''\<rparr>"
  by (simp add: merged_stores_def map_values_def build_storeMap_def add_token_store_def
      map_has_def token_entry_def)

section \<open>Claims about the session endpoint\<close>

text \<open>
  Claim C5, as amended. Without a session token (no cookie, or an empty one) the endpoint
  answers 401 with \<^verbatim>\<open>{success: false, error: 'No session token found'}\<close> and deletes no
  cookie. With a token whose verification returns a failure it answers 401 with
  \<^verbatim>\<open>{success: false, error}\<close> and deletes the \<^verbatim>\<open>session_token\<close> cookie. With a token
  whose verification succeeds it answers 200 with \<^verbatim>\<open>{success: true, user}\<close>; when the
  verification throws it answers 500. So a 401 response deletes the cookie exactly when a
  token was presented.
\<close>

theorem session_verification_responses:
  "(\<not> truthy_str sessionToken \<longrightarrow>
      session_GET verify sessionToken =
        \<lparr>status = 401,
         body = JObj [(''success'', JBool False), (''error'', JStr ''No session token found'')],
         deleted_cookies = []\<rparr>)
   \<and> (truthy_str sessionToken \<and> verify (the sessionToken) = Returns result \<and> \<not> success result \<longrightarrow>
        session_GET verify sessionToken =
          \<lparr>status = 401,
           body = obj [(''success'', Some (JBool False)), (''error'', map_option JStr (error result))],
           deleted_cookies = [''session_token'']\<rparr>)
   \<and> (truthy_str sessionToken \<and> verify (the sessionToken) = Returns result \<and> success result \<longrightarrow>
        session_GET verify sessionToken =
          \<lparr>status = 200,
           body = obj [(''success'', Some (JBool True)), (''user'', user result)],
           deleted_cookies = []\<rparr>)
   \<and> (truthy_str sessionToken \<and> verify (the sessionToken) = Throws \<longrightarrow>
        session_GET verify sessionToken =
          \<lparr>status = 500,
           body = JObj [(''success'', JBool False), (''error'', JStr ''Internal server error'')],
           deleted_cookies = []\<rparr>)
   \<and> (status (session_GET verify sessionToken) = 401 \<longrightarrow>
        (''session_token'' \<in> set (deleted_cookies (session_GET verify sessionToken))
         \<longleftrightarrow> truthy_str sessionToken))"
  by (cases "verify (the sessionToken)") (simp_all add: session_GET_def json_response_def)

text \<open>The theorem at an expired token, at a valid token and at a request without a cookie.\<close>

theorem session_verification_responses_witness:
  "session_GET (\<lambda>token. Returns \<lparr>success = False, user = None, error = Some ''Session expired''\<rparr>)
     (Some ''stale'')
   = \<lparr>status = 401,
      body = JObj [(''success'', JBool False), (''error'', JStr ''Session expired'')],
      deleted_cookies = [''session_token'']\<rparr>
   \<and> session_GET (\<lambda>token. Returns \<lparr>success = True,
          user = Some (JObj [(''username'', JStr ''sam''), (''userType'', JStr ''seller'')]),
          error = None\<rparr>)
     (Some ''fresh'')
   = \<lparr>status = 200,
      body = JObj [(''success'', JBool True),
                   (''user'', JObj [(''username'', JStr ''sam''), (''userType'', JStr ''seller'')])],
      deleted_cookies = []\<rparr>
   \<and> session_GET (\<lambda>token. Throws) None
   = \<lparr>status = 401,
      body = JObj [(''success'', JBool False), (''error'', JStr ''No session token found'')],
      deleted_cookies = []\<rparr>"
proof -
  let ?bad = "\<lparr>success = False, user = None, error = Some ''Session expired''\<rparr>"
  let ?u = "JObj [(''username'', JStr ''sam''), (''userType'', JStr ''seller'')]"
  let ?good = "\<lparr>success = True, user = Some ?u, error = None\<rparr>"
  have h1: "truthy_str (Some ''stale'') \<and> (\<lambda>token. Returns ?bad) (the (Some ''stale'')) = Returns ?bad
      \<and> \<not> success ?bad"
    by simp
  have A: "session_GET (\<lambda>token. Returns ?bad) (Some ''stale'') =
          \<lparr>status = 401,
           body = obj [(''success'', Some (JBool False)), (''error'', map_option JStr (error ?bad))],
           deleted_cookies = [''session_token'']\<rparr>"
    using session_verification_responses [where sessionToken = "Some ''stale''"
        and verify = "\<lambda>token. Returns ?bad" and result = ?bad] h1
    by blast
  have h2: "truthy_str (Some ''fresh'') \<and> (\<lambda>token. Returns ?good) (the (Some ''fresh'')) = Returns ?good
      \<and> success ?good"
    by simp
  have B: "session_GET (\<lambda>token. Returns ?good) (Some ''fresh'') =
          \<lparr>status = 200,
           body = obj [(''success'', Some (JBool True)), (''user'', user ?good)],
           deleted_cookies = []\<rparr>"
    using session_verification_responses [where sessionToken = "Some ''fresh''"
        and verify = "\<lambda>token. Returns ?good" and result = ?good] h2
    by blast
  have h3: "\<not> truthy_str None" by simp
  have C: "session_GET (\<lambda>token. Throws) None =
        \<lparr>status = 401,
         body = JObj [(''success'', JBool False), (''error'', JStr ''No session token found'')],
         deleted_cookies = []\<rparr>"
    using session_verification_responses [where sessionToken = None
        and verify = "\<lambda>token. Throws" and result = ?bad] h3
    by blast
  from A B C show ?thesis
    by (simp add: obj_def List.map_filter_def)
qed

text \<open>Claim C5 as stated fails: a request without a cookie is answered 401 and the response
  deletes no cookie.\<close>

theorem absent_token_cookie_counterexample:
  "status (session_GET (\<lambda>token. Throws) None) = 401
   \<and> ''session_token'' \<notin> set (deleted_cookies (session_GET (\<lambda>token. Throws) None))"
  by (simp add: session_GET_def json_response_def)

section \<open>Properties of the text of a body\<close>

lemma char_of_eq_iff: "char_of (n :: nat) = c \<longleftrightarrow> n mod 256 = of_char c"
  by (metis char_of_char of_char_of char_of_mod_256)


lemma dec1:
  "b \<le> 0x7F \<Longrightarrow> utf8_decoder 0 0 0x80 0xBF (b # bs) = b # utf8_decoder 0 0 0x80 0xBF bs"
  by simp

lemma dec2:
  "0xC2 \<le> b \<Longrightarrow> b \<le> 0xDF \<Longrightarrow> continuation c \<Longrightarrow>
   utf8_decoder 0 0 0x80 0xBF (b # c # cs)
     = (b mod 32 * 64 + c mod 64) # utf8_decoder 0 0 0x80 0xBF cs"
  by (simp add: continuation_def)



lemma mod_shift: "(k::nat) * m \<le> n \<Longrightarrow> n < k * m + m \<Longrightarrow> n mod m = n - k * m"
  by (metis add.commute le_add_diff_inverse mod_less mod_mult_self1 mult.commute nat_add_left_cancel_less)

lemma enc1: "b \<le> 0x7F \<Longrightarrow> utf8_encode b = [b]"
  by (simp add: utf8_encode_def)

lemma enc2:
  assumes "0xC2 \<le> b" "b \<le> 0xDF" "continuation c"
  shows "utf8_encode (b mod 32 * 64 + c mod 64) = [b, c]"
proof -
  define x y where "x = b - 192" and "y = c - 128"
  have xy: "b = 192 + x" "x < 32" "2 \<le> x" "c = 128 + y" "y < 64"
    using assms unfolding continuation_def x_def y_def by auto
  have b: "b mod 32 = x" using mod_shift [of 6 32 b] assms by (simp add: x_def)
  have c: "c mod 64 = y" using mod_shift [of 2 64 c] assms by (simp add: y_def continuation_def)
  have lo: "\<not> x * 64 + y < 0x80" using xy by simp
  have hi: "x * 64 + y < 0x800" using xy by simp
  show ?thesis
    unfolding b c using lo hi xy by (simp add: utf8_encode_def)
qed


lemma div64: "y < 64 \<Longrightarrow> (a * 64 + y) div 64 = (a::nat)"
  by simp

lemma mod64: "y < 64 \<Longrightarrow> (a * 64 + y) mod 64 = (y::nat)"
  by simp

lemma div4096: "(n::nat) div 4096 = n div 64 div 64"
  by (simp add: div_mult2_eq [symmetric])

lemma div262144: "(n::nat) div 262144 = n div 64 div 64 div 64"
  by (simp add: div_mult2_eq [symmetric])

lemma enc3:
  assumes "0xE0 \<le> b" "b \<le> 0xEF"
    and "if b = 0xE0 then 0xA0 \<le> c \<and> c \<le> 0xBF
         else if b = 0xED then 0x80 \<le> c \<and> c \<le> 0x9F else continuation c"
    and "continuation d"
  shows "utf8_encode ((b mod 16 * 64 + c mod 64) * 64 + d mod 64) = [b, c, d]"
proof -
  define x y z where "x = b - 224" and "y = c - 128" and "z = d - 128"
  have cr: "128 \<le> c" "c \<le> 191"
    using assms(3) by (auto simp: continuation_def split: if_splits)
  have xy: "b = 224 + x" "x < 16" "c = 128 + y" "y < 64" "d = 128 + z" "z < 64"
    using assms cr unfolding continuation_def x_def y_def z_def by auto
  have first: "x = 0 \<Longrightarrow> 32 \<le> y"
    using assms(3) xy by (auto split: if_splits)
  have b: "b mod 16 = x" using mod_shift [of 14 16 b] assms by (simp add: x_def)
  have c: "c mod 64 = y" using mod_shift [of 2 64 c] cr by (simp add: y_def)
  have d: "d mod 64 = z" using mod_shift [of 2 64 d] assms by (simp add: z_def continuation_def)
  define cp where "cp = (x * 64 + y) * 64 + z"
  have lo: "\<not> cp < 0x800"
    using first xy unfolding cp_def by (cases "x = 0") auto
  have hi: "cp < 0x10000" using xy unfolding cp_def by simp
  have q: "cp div 64 = x * 64 + y" "cp mod 64 = z"
    unfolding cp_def using xy(6) by (simp_all only: div64 mod64)
  have parts: "cp div 4096 = x" "cp div 64 mod 64 = y" "cp mod 64 = z"
    unfolding div4096 q using xy(4) by (simp_all only: div64 mod64)
  have "utf8_encode cp = [b, c, d]"
    using lo hi parts xy(1,3,5) by (simp add: utf8_encode_def)
  then show ?thesis by (simp only: b c d cp_def)
qed

lemma enc4:
  assumes "0xF0 \<le> b" "b \<le> 0xF4"
    and "if b = 0xF0 then 0x90 \<le> c \<and> c \<le> 0xBF
         else if b = 0xF4 then 0x80 \<le> c \<and> c \<le> 0x8F else continuation c"
    and "continuation d" and "continuation e"
  shows "utf8_encode (((b mod 8 * 64 + c mod 64) * 64 + d mod 64) * 64 + e mod 64)
           = [b, c, d, e]"
proof -
  define x y z w where "x = b - 240" and "y = c - 128" and "z = d - 128" and "w = e - 128"
  have cr: "128 \<le> c" "c \<le> 191"
    using assms(3) by (auto simp: continuation_def split: if_splits)
  have xy: "b = 240 + x" "x < 8" "c = 128 + y" "y < 64" "d = 128 + z" "z < 64"
      "e = 128 + w" "w < 64"
    using assms cr unfolding continuation_def x_def y_def z_def w_def by auto
  have first: "x = 0 \<Longrightarrow> 16 \<le> y"
    using assms(3) xy by (auto split: if_splits)
  have b: "b mod 8 = x" using mod_shift [of 30 8 b] assms by (simp add: x_def)
  have c: "c mod 64 = y" using mod_shift [of 2 64 c] cr by (simp add: y_def)
  have d: "d mod 64 = z" using mod_shift [of 2 64 d] assms by (simp add: z_def continuation_def)
  have e: "e mod 64 = w" using mod_shift [of 2 64 e] assms by (simp add: w_def continuation_def)
  define cp where "cp = ((x * 64 + y) * 64 + z) * 64 + w"
  have lo: "\<not> cp < 0x10000"
    using first xy unfolding cp_def by (cases "x = 0") auto
  have q: "cp div 64 = (x * 64 + y) * 64 + z" "cp mod 64 = w"
    unfolding cp_def using xy(8) by (simp_all only: div64 mod64)
  have q': "cp div 64 div 64 = x * 64 + y" "cp div 64 mod 64 = z"
    unfolding q using xy(6) by (simp_all only: div64 mod64)
  have p1: "cp div 262144 = x"
    unfolding div262144 q'(1) using xy(4) by (simp only: div64)
  have p2: "cp div 4096 mod 64 = y"
    unfolding div4096 q'(1) using xy(4) by (simp only: mod64)
  note parts = p1 p2 q'(2) q(2)
  have "utf8_encode cp = [b, c, d, e]"
    using lo parts xy(1,3,5,7) by (simp add: utf8_encode_def)
  then show ?thesis by (simp only: b c d e cp_def)
qed

lemma dec3:
  assumes "0xE0 \<le> b" "b \<le> 0xEF"
    and "if b = 0xE0 then 0xA0 \<le> c \<and> c \<le> 0xBF
         else if b = 0xED then 0x80 \<le> c \<and> c \<le> 0x9F else continuation c"
    and "continuation d"
  shows "utf8_decoder 0 0 0x80 0xBF (b # c # d # ds)
     = ((b mod 16 * 64 + c mod 64) * 64 + d mod 64) # utf8_decoder 0 0 0x80 0xBF ds"
proof -
  have lead: "utf8_decoder 0 0 0x80 0xBF (b # c # d # ds)
      = utf8_decoder 2 (b mod 16) (if b = 0xE0 then 0xA0 else 0x80)
          (if b = 0xED then 0x9F else 0xBF) (c # d # ds)"
    using assms(1,2) by simp
  have second: "utf8_decoder 2 (b mod 16) (if b = 0xE0 then 0xA0 else 0x80)
          (if b = 0xED then 0x9F else 0xBF) (c # d # ds)
      = utf8_decoder 1 (b mod 16 * 64 + c mod 64) 0x80 0xBF (d # ds)"
    using assms(3) by (cases "b = 0xE0"; cases "b = 0xED") (simp_all add: continuation_def)
  have third: "utf8_decoder 1 (b mod 16 * 64 + c mod 64) 0x80 0xBF (d # ds)
      = ((b mod 16 * 64 + c mod 64) * 64 + d mod 64) # utf8_decoder 0 0 0x80 0xBF ds"
    using assms(4) by (simp add: continuation_def)
  show ?thesis by (simp only: lead second third)
qed

lemma dec4:
  assumes "0xF0 \<le> b" "b \<le> 0xF4"
    and "if b = 0xF0 then 0x90 \<le> c \<and> c \<le> 0xBF
         else if b = 0xF4 then 0x80 \<le> c \<and> c \<le> 0x8F else continuation c"
    and "continuation d" and "continuation e"
  shows "utf8_decoder 0 0 0x80 0xBF (b # c # d # e # es)
     = (((b mod 8 * 64 + c mod 64) * 64 + d mod 64) * 64 + e mod 64)
       # utf8_decoder 0 0 0x80 0xBF es"
proof -
  have lead: "utf8_decoder 0 0 0x80 0xBF (b # c # d # e # es)
      = utf8_decoder 3 (b mod 8) (if b = 0xF0 then 0x90 else 0x80)
          (if b = 0xF4 then 0x8F else 0xBF) (c # d # e # es)"
    using assms(1,2) by simp
  have second: "utf8_decoder 3 (b mod 8) (if b = 0xF0 then 0x90 else 0x80)
          (if b = 0xF4 then 0x8F else 0xBF) (c # d # e # es)
      = utf8_decoder 2 (b mod 8 * 64 + c mod 64) 0x80 0xBF (d # e # es)"
    using assms(3) by (cases "b = 0xF0"; cases "b = 0xF4") (simp_all add: continuation_def)
  have third: "utf8_decoder 2 (b mod 8 * 64 + c mod 64) 0x80 0xBF (d # e # es)
      = utf8_decoder 1 ((b mod 8 * 64 + c mod 64) * 64 + d mod 64) 0x80 0xBF (e # es)"
    using assms(4) by (simp add: continuation_def)
  have fourth: "utf8_decoder 1 ((b mod 8 * 64 + c mod 64) * 64 + d mod 64) 0x80 0xBF (e # es)
      = (((b mod 8 * 64 + c mod 64) * 64 + d mod 64) * 64 + e mod 64)
        # utf8_decoder 0 0 0x80 0xBF es"
    using assms(5) by (simp add: continuation_def)
  show ?thesis by (simp only: lead second third fourth)
qed


lemma decode_encode_well_formed:
  "well_formed bs \<Longrightarrow> concat (map utf8_encode (utf8_decoder 0 0 0x80 0xBF bs)) = bs"
proof (induction bs rule: length_induct)
  case (1 bs)
  show ?case
  proof (cases bs)
    case Nil
    then show ?thesis by simp
  next
    case (Cons b rest)
    note wf = "1.prems" [unfolded Cons]
    have IH: "well_formed ys \<Longrightarrow> length ys < length bs
        \<Longrightarrow> concat (map utf8_encode (utf8_decoder 0 0 0x80 0xBF ys)) = ys" for ys
      using "1.IH" by blast
    consider (one) "b \<le> 0x7F"
      | (two) "0xC2 \<le> b" "b \<le> 0xDF"
      | (three) "0xE0 \<le> b" "b \<le> 0xEF"
      | (four) "0xF0 \<le> b" "b \<le> 0xF4"
      using wf by (auto split: if_splits)
    then show ?thesis
    proof cases
      case one
      with wf have "well_formed rest" by simp
      then have "concat (map utf8_encode (utf8_decoder 0 0 0x80 0xBF rest)) = rest"
        by (rule IH) (simp add: Cons)
      then show ?thesis
        by (simp only: Cons dec1 [OF one] list.map concat.simps enc1 [OF one]) simp
    next
      case two
      with wf obtain c cs where r: "rest = c # cs" "continuation c" "well_formed cs"
        by (auto split: list.splits)
      have "concat (map utf8_encode (utf8_decoder 0 0 0x80 0xBF cs)) = cs"
        using r(3) by (rule IH) (simp add: Cons r(1))
      then show ?thesis
        by (simp only: Cons r(1) dec2 [OF two r(2)] list.map concat.simps enc2 [OF two r(2)])
           simp
    next
      case three
      with wf obtain c d ds where r: "rest = c # d # ds"
        "if b = 0xE0 then 0xA0 \<le> c \<and> c \<le> 0xBF
         else if b = 0xED then 0x80 \<le> c \<and> c \<le> 0x9F else continuation c"
        "continuation d" "well_formed ds"
        by (auto split: list.splits)
      have "concat (map utf8_encode (utf8_decoder 0 0 0x80 0xBF ds)) = ds"
        using r(4) by (rule IH) (simp add: Cons r(1))
      then show ?thesis
        by (simp only: Cons r(1) dec3 [OF three r(2,3)] list.map concat.simps
            enc3 [OF three r(2,3)]) simp
    next
      case four
      with wf obtain c d e es where r: "rest = c # d # e # es"
        "if b = 0xF0 then 0x90 \<le> c \<and> c \<le> 0xBF
         else if b = 0xF4 then 0x80 \<le> c \<and> c \<le> 0x8F else continuation c"
        "continuation d" "continuation e" "well_formed es"
        by (auto split: list.splits)
      have "concat (map utf8_encode (utf8_decoder 0 0 0x80 0xBF es)) = es"
        using r(5) by (rule IH) (simp add: Cons r(1))
      then show ?thesis
        by (simp only: Cons r(1) dec4 [OF four r(2,3,4)] list.map concat.simps
            enc4 [OF four r(2,3,4)]) simp
    qed
  qed
qed

text \<open>A body that is well-formed UTF-8 and has no byte order mark is its own text.\<close>

lemma request_text_well_formed:
  assumes "well_formed_utf8 raw" and "\<not> has_bom raw"
  shows "request_text raw = raw"
proof -
  have "concat (map utf8_encode (utf8_decoder 0 0 0x80 0xBF (map of_char raw))) = map of_char raw"
    using assms(1) unfolding well_formed_utf8_def by (rule decode_encode_well_formed)
  with assms(2) show ?thesis
    by (simp add: request_text_def strip_bom_def comp_def)
qed

section \<open>Claims about the webhook endpoint\<close>

lemma length_base64: "length (base64 xs) = 4 * ((length xs + 2) div 3)"
proof (induction xs rule: base64.induct)
  case (4 a b c rest)
  then have "length (base64 rest) = 4 * ((length rest + 2) div 3)" by simp
  then show ?case by (simp add: Let_def) presburger
qed (simp_all add: Let_def)

lemma webhook_status_401_iff:
  "status (fst (webhook_POST secret hmac parse request)) = 401 \<longleftrightarrow>
     secret \<noteq> placeholder_secret
     \<and> hmacHeader request \<noteq> Some (base64 (hmac secret (request_text (raw_body request))))"
  by (simp add: webhook_POST_def Let_def expectedHmac_def json_response_def
      split: option.splits)

text \<open>
  Claim C2, as amended. With a real secret configured, the request passes the signature
  check exactly when the signature header equals the base64 text of the HMAC-SHA256 digest,
  under the secret, of the body as text: the bytes of the body decoded as UTF-8 and encoded
  again, taken before the text is parsed. For a body that is well-formed UTF-8 and does
  not start with a byte order mark these are the exact bytes of the body. Every other
  header is answered 401 \<^verbatim>\<open>{error: "Invalid signature"}\<close> (a response, not an exception):
  an absent header, and, the digest having 32 bytes, an empty header.
\<close>

theorem webhook_signature_check:
  assumes "secret \<noteq> placeholder_secret"
  shows "(status (fst (webhook_POST secret hmac parse request)) \<noteq> 401
           \<longleftrightarrow> hmacHeader request
                 = Some (base64 (hmac secret (request_text (raw_body request)))))
    \<and> (well_formed_utf8 (raw_body request) \<and> \<not> has_bom (raw_body request) \<longrightarrow>
          request_text (raw_body request) = raw_body request
          \<and> (status (fst (webhook_POST secret hmac parse request)) \<noteq> 401
               \<longleftrightarrow> hmacHeader request = Some (base64 (hmac secret (raw_body request)))))
    \<and> (hmacHeader request \<noteq> Some (base64 (hmac secret (request_text (raw_body request)))) \<longrightarrow>
          fst (webhook_POST secret hmac parse request)
            = json_response 401 (error_body ''Invalid signature''))
    \<and> (hmacHeader request = None \<longrightarrow>
          status (fst (webhook_POST secret hmac parse request)) = 401)
    \<and> (length (hmac secret (request_text (raw_body request))) = 32
         \<and> hmacHeader request = Some [] \<longrightarrow>
          status (fst (webhook_POST secret hmac parse request)) = 401)"
proof -
  have nonempty: "base64 (hmac secret (request_text (raw_body request))) \<noteq> []"
    if "length (hmac secret (request_text (raw_body request))) = 32"
  proof -
    from that have "length (base64 (hmac secret (request_text (raw_body request)))) = 44"
      by (simp add: length_base64)
    then show ?thesis by auto
  qed
  have rejected: "fst (webhook_POST secret hmac parse request)
            = json_response 401 (error_body ''Invalid signature'')"
    if "hmacHeader request \<noteq> Some (base64 (hmac secret (request_text (raw_body request))))"
    using that assms by (simp add: webhook_POST_def Let_def expectedHmac_def)
  have passes: "status (fst (webhook_POST secret hmac parse request)) \<noteq> 401
           \<longleftrightarrow> hmacHeader request
                 = Some (base64 (hmac secret (request_text (raw_body request))))"
    using assms by (simp add: webhook_status_401_iff)
  have exact: "request_text (raw_body request) = raw_body request"
    if "well_formed_utf8 (raw_body request)" "\<not> has_bom (raw_body request)"
    using that by (rule request_text_well_formed)
  have absent: "status (fst (webhook_POST secret hmac parse request)) = 401"
    if "hmacHeader request = None"
    using that assms by (simp add: webhook_status_401_iff)
  have empty: "status (fst (webhook_POST secret hmac parse request)) = 401"
    if "length (hmac secret (request_text (raw_body request))) = 32" "hmacHeader request = Some []"
    using that assms nonempty by (auto simp: webhook_status_401_iff)
  from exact passes have exact_passes:
    "request_text (raw_body request) = raw_body request
     \<and> (status (fst (webhook_POST secret hmac parse request)) \<noteq> 401
          \<longleftrightarrow> hmacHeader request = Some (base64 (hmac secret (raw_body request))))"
    if "well_formed_utf8 (raw_body request)" "\<not> has_bom (raw_body request)"
    using that by simp
  show ?thesis
    using passes exact_passes rejected absent empty by blast
qed

text \<open>The theorem at the secret \<^verbatim>\<open>s3cret\<close>, the body \<^verbatim>\<open>{"id":1}\<close> and a stand-in digest
  function: the matching header is accepted; the header with its last letter changed, the
  empty header and the absent header are answered 401.\<close>

theorem webhook_signature_check_witness:
  \<open>fst (webhook_POST ''s3cret'' (\<lambda>key msg. ''0123456789abcdef0123456789abcdef'')
          (\<lambda>text. Some (JObj [(''id'', JNum 1)]))
          \<lparr>raw_body = ''{"id":1}'',
           hmacHeader = Some ''MDEyMzQ1Njc4OWFiY2RlZjAxMjM0NTY3ODlhYmNkZWY='',
           topicHeader = Some ''orders/create'', shopHeader = Some ''a.myshopify.com''\<rparr>)
     = json_response 200 (JObj [(''success'', JBool True)])
   \<and> fst (webhook_POST ''s3cret'' (\<lambda>key msg. ''0123456789abcdef0123456789abcdef'')
          (\<lambda>text. Some (JObj [(''id'', JNum 1)]))
          \<lparr>raw_body = ''{"id":1}'',
           hmacHeader = Some ''MDEyMzQ1Njc4OWFiY2RlZjAxMjM0NTY3ODlhYmNkZWX='',
           topicHeader = Some ''orders/create'', shopHeader = Some ''a.myshopify.com''\<rparr>)
     = json_response 401 (error_body ''Invalid signature'')
   \<and> status (fst (webhook_POST ''s3cret'' (\<lambda>key msg. ''0123456789abcdef0123456789abcdef'')
          (\<lambda>text. Some (JObj [(''id'', JNum 1)]))
          \<lparr>raw_body = ''{"id":1}'', hmacHeader = Some [],
           topicHeader = Some ''orders/create'', shopHeader = Some ''a.myshopify.com''\<rparr>))
     = 401
   \<and> status (fst (webhook_POST ''s3cret'' (\<lambda>key msg. ''0123456789abcdef0123456789abcdef'')
          (\<lambda>text. Some (JObj [(''id'', JNum 1)]))
          \<lparr>raw_body = ''{"id":1}'', hmacHeader = None,
           topicHeader = Some ''orders/create'', shopHeader = Some ''a.myshopify.com''\<rparr>))
     = 401
   \<and> request_text ''{"id":1}'' = ''{"id":1}''\<close>
proof -
  let ?h = "\<lambda>key msg :: string. ''0123456789abcdef0123456789abcdef''"
  let ?p = "\<lambda>text :: string. Some (JObj [(''id'', JNum 1)])"
  let ?req = \<open>\<lambda>header. \<lparr>raw_body = ''{"id":1}'', hmacHeader = header,
           topicHeader = Some ''orders/create'', shopHeader = Some ''a.myshopify.com''\<rparr>\<close>
  have real: "''s3cret'' \<noteq> placeholder_secret"
    by (simp add: placeholder_secret_def)
  have sig: "base64 ''0123456789abcdef0123456789abcdef''
      = ''MDEyMzQ1Njc4OWFiY2RlZjAxMjM0NTY3ODlhYmNkZWY=''"
    by (simp add: base64_digit_def base64_alphabet_def)
  have len: "length ''0123456789abcdef0123456789abcdef'' = 32" by simp
  have wf: \<open>well_formed_utf8 ''{"id":1}''\<close> \<open>\<not> has_bom ''{"id":1}''\<close>
    by (simp_all add: well_formed_utf8_def has_bom_def)
  note T = webhook_signature_check [OF real, where hmac = ?h and parse = ?p]
  have body_text: \<open>request_text ''{"id":1}'' = ''{"id":1}''\<close>
    using T [where request = "?req None"] wf by simp
  have good: "status (fst (webhook_POST ''s3cret'' ?h ?p
       (?req (Some ''MDEyMzQ1Njc4OWFiY2RlZjAxMjM0NTY3ODlhYmNkZWY='')))) \<noteq> 401"
    using T [where request = "?req (Some ''MDEyMzQ1Njc4OWFiY2RlZjAxMjM0NTY3ODlhYmNkZWY='')"] sig
    by simp
  have A: "fst (webhook_POST ''s3cret'' ?h ?p
       (?req (Some ''MDEyMzQ1Njc4OWFiY2RlZjAxMjM0NTY3ODlhYmNkZWY='')))
     = json_response 200 (JObj [(''success'', JBool True)])"
    using good
    by (simp add: webhook_POST_def Let_def handle_topic_def log_payload_id_def json_response_def
        split: if_splits)
  have B: "fst (webhook_POST ''s3cret'' ?h ?p
       (?req (Some ''MDEyMzQ1Njc4OWFiY2RlZjAxMjM0NTY3ODlhYmNkZWX='')))
     = json_response 401 (error_body ''Invalid signature'')"
    using T [where request = "?req (Some ''MDEyMzQ1Njc4OWFiY2RlZjAxMjM0NTY3ODlhYmNkZWX='')"] sig
    by simp
  have C: "status (fst (webhook_POST ''s3cret'' ?h ?p (?req (Some [])))) = 401"
    using T [where request = "?req (Some [])"] len
    by (simp add: json_response_def)
  have D: "status (fst (webhook_POST ''s3cret'' ?h ?p (?req None))) = 401"
    using T [where request = "?req None"]
    by (simp add: json_response_def)
  from A B C D body_text show ?thesis by simp
qed

text \<open>
  Claim C2 as stated fails: the expected signature is not the digest of the exact bytes of
  the body. A body that starts with a byte order mark, EF BB BF \<^verbatim>\<open>{"id":1}\<close>, is read as the
  text \<^verbatim>\<open>{"id":1}\<close>; the header that is the digest of the exact bytes is answered 401, and
  the header that is the digest of the eight bytes after the mark is accepted. The digest
  function here is a stand-in that tells the two messages apart (the first 32 bytes of the
  message followed by a filler), as HMAC-SHA256 does.
\<close>

theorem signed_bytes_with_bom_counterexample:
  \<open>status (fst (webhook_POST ''s3cret''
          (\<lambda>key msg. take 32 (msg @ ''0123456789abcdef0123456789abcdef''))
          (\<lambda>text. if text = ''{"id":1}'' then Some (JObj [(''id'', JNum 1)]) else None)
          \<lparr>raw_body = [CHR 0xEF, CHR 0xBB, CHR 0xBF] @ ''{"id":1}'',
           hmacHeader = Some (base64 (take 32 (([CHR 0xEF, CHR 0xBB, CHR 0xBF] @ ''{"id":1}'')
                                               @ ''0123456789abcdef0123456789abcdef''))),
           topicHeader = Some ''orders/create'', shopHeader = Some ''a.myshopify.com''\<rparr>))
     = 401
   \<and> status (fst (webhook_POST ''s3cret''
          (\<lambda>key msg. take 32 (msg @ ''0123456789abcdef0123456789abcdef''))
          (\<lambda>text. if text = ''{"id":1}'' then Some (JObj [(''id'', JNum 1)]) else None)
          \<lparr>raw_body = [CHR 0xEF, CHR 0xBB, CHR 0xBF] @ ''{"id":1}'',
           hmacHeader = Some (base64 (take 32 (''{"id":1}''
                                               @ ''0123456789abcdef0123456789abcdef''))),
           topicHeader = Some ''orders/create'', shopHeader = Some ''a.myshopify.com''\<rparr>))
     = 200
   \<and> request_text ([CHR 0xEF, CHR 0xBB, CHR 0xBF] @ ''{"id":1}'') = ''{"id":1}''\<close>
  by (simp add: webhook_POST_def Let_def expectedHmac_def handle_topic_def
      log_payload_id_def json_response_def placeholder_secret_def base64_digit_def
      base64_alphabet_def request_text_def strip_bom_def has_bom_def utf8_encode_def
      char_of_eq_iff)


text \<open>
  Claim C4 fails on the code. A body that parses to null (the JSON text \<^verbatim>\<open>null\<close>) passes the
  signature check and the parse; for the four topics whose branch reads \<^verbatim>\<open>payload.id\<close> the
  read throws, the outer \<^verbatim>\<open>catch\<close> answers 500, and the request is not acknowledged.
\<close>

theorem null_payload_not_acknowledged:
  assumes "parse (request_text (raw_body request)) = Some JNull"
    and "topicHeader request = Some ''orders/create'' \<or> topicHeader request = Some ''orders/updated''
         \<or> topicHeader request = Some ''products/create''
         \<or> topicHeader request = Some ''products/update''"
    and "secret = placeholder_secret
         \<or> hmacHeader request = Some (base64 (hmac secret (request_text (raw_body request))))"
  shows "fst (webhook_POST secret hmac parse request)
           = json_response 500 (error_body ''Internal server error'')"
  using assms
  by (auto simp: webhook_POST_def Let_def expectedHmac_def handle_topic_def log_payload_id_def)

text \<open>The run at the body \<^verbatim>\<open>null\<close>, topic \<^verbatim>\<open>orders/create\<close>, no secret configured.\<close>

theorem null_payload_not_acknowledged_witness:
  "webhook_POST (WEBHOOK_SECRET None) (\<lambda>key msg. [])
      (\<lambda>text. if text = ''null'' then Some JNull else None)
      \<lparr>raw_body = ''null'', hmacHeader = None, topicHeader = Some ''orders/create'',
       shopHeader = Some ''a.myshopify.com''\<rparr>
   = (\<lparr>status = 500, body = JObj [(''error'', JStr ''Internal server error'')],
       deleted_cookies = []\<rparr>,
      [\<lparr>call_method = Console_log,
        message = ''Webhook received: orders/create from a.myshopify.com'', args = []\<rparr>,
       \<lparr>call_method = Console_error, message = ''Webhook processing error:'',
        args = [Caught TypeError]\<rparr>])"
proof -
  let ?p = "\<lambda>text. if text = ''null'' then Some JNull else None"
  let ?req = "\<lparr>raw_body = ''null'', hmacHeader = None, topicHeader = Some ''orders/create'',
       shopHeader = Some ''a.myshopify.com''\<rparr>"
  have s: "WEBHOOK_SECRET None = placeholder_secret"
    by (simp add: WEBHOOK_SECRET_def)
  have body_text: "request_text ''null'' = ''null''"
    by (simp add: request_text_def strip_bom_def has_bom_def utf8_encode_def char_of_eq_iff)
  have "fst (webhook_POST (WEBHOOK_SECRET None) (\<lambda>key msg. []) ?p ?req)
      = json_response 500 (error_body ''Internal server error'')"
    using null_payload_not_acknowledged [where parse = ?p and request = ?req
        and secret = "WEBHOOK_SECRET None" and hmac = "\<lambda>key msg. []"] s body_text
    by simp
  moreover have "snd (webhook_POST (WEBHOOK_SECRET None) (\<lambda>key msg. []) ?p ?req)
      = [\<lparr>call_method = Console_log,
        message = ''Webhook received: orders/create from a.myshopify.com'', args = []\<rparr>,
       \<lparr>call_method = Console_error, message = ''Webhook processing error:'',
        args = [Caught TypeError]\<rparr>]"
    by (simp add: s body_text webhook_POST_def Let_def handle_topic_def log_payload_id_def
        console_log_def console_error_def)
  ultimately show ?thesis
    by (simp add: prod_eq_iff json_response_def error_body_def)
qed

text \<open>
  Every other request that passes the signature check and the parse is acknowledged with
  200 \<^verbatim>\<open>{success: true}\<close>, whatever its topic: a payload that is not null, or a topic
  whose branch does not read the payload (\<^verbatim>\<open>app/uninstalled\<close>, an unrecognised topic, no
  topic).
\<close>

theorem webhook_acknowledged:
  assumes "parse (request_text (raw_body request)) = Some payload"
    and "secret = placeholder_secret
         \<or> hmacHeader request = Some (base64 (hmac secret (request_text (raw_body request))))"
    and "payload \<noteq> JNull
         \<or> (topicHeader request \<noteq> Some ''orders/create''
            \<and> topicHeader request \<noteq> Some ''orders/updated''
            \<and> topicHeader request \<noteq> Some ''products/create''
            \<and> topicHeader request \<noteq> Some ''products/update'')"
  shows "fst (webhook_POST secret hmac parse request)
           = json_response 200 (JObj [(''success'', JBool True)])"
  using assms
  by (auto simp: webhook_POST_def Let_def expectedHmac_def handle_topic_def log_payload_id_def)

text \<open>The theorem at the body \<^verbatim>\<open>null\<close> under a topic the handler does not know.\<close>

theorem webhook_acknowledged_witness:
  "fst (webhook_POST (WEBHOOK_SECRET None) (\<lambda>key msg. [])
          (\<lambda>text. if text = ''null'' then Some JNull else None)
          \<lparr>raw_body = ''null'', hmacHeader = None, topicHeader = Some ''carts/update'',
           shopHeader = Some ''a.myshopify.com''\<rparr>)
     = \<lparr>status = 200, body = JObj [(''success'', JBool True)], deleted_cookies = []\<rparr>"
proof -
  let ?p = "\<lambda>text. if text = ''null'' then Some JNull else None"
  let ?req = "\<lparr>raw_body = ''null'', hmacHeader = None, topicHeader = Some ''carts/update'',
       shopHeader = Some ''a.myshopify.com''\<rparr>"
  have s: "WEBHOOK_SECRET None = placeholder_secret"
    by (simp add: WEBHOOK_SECRET_def)
  have body_text: "request_text ''null'' = ''null''"
    by (simp add: request_text_def strip_bom_def has_bom_def utf8_encode_def char_of_eq_iff)
  have "fst (webhook_POST (WEBHOOK_SECRET None) (\<lambda>key msg. []) ?p ?req)
      = json_response 200 (JObj [(''success'', JBool True)])"
    using webhook_acknowledged [where parse = ?p and request = ?req and payload = JNull
        and secret = "WEBHOOK_SECRET None" and hmac = "\<lambda>key msg. []"] s body_text
    by simp
  then show ?thesis by (simp add: json_response_def)
qed

lemma webhook_no_warning:
  "call \<in> set (snd (webhook_POST secret hmac parse request)) \<Longrightarrow> call_method call \<noteq> Console_warn"
  by (auto simp: webhook_POST_def Let_def handle_topic_def log_payload_id_def console_log_def
      console_error_def split: option.splits if_splits)

lemma webhook_bypass_same_as_signed:
  "webhook_POST placeholder_secret hmac parse request
     = webhook_POST secret hmac parse
         (request\<lparr>hmacHeader := Some (base64 (hmac secret (request_text (raw_body request))))\<rparr>)"
  by (simp add: webhook_POST_def Let_def expectedHmac_def split: option.splits)

text \<open>
  Claim C7, as amended. The module constant equals the placeholder exactly when the
  environment variable is unset, empty or the placeholder text itself; the signature check
  is bypassed (no request at all is answered 401) exactly when the constant equals the
  placeholder. A request handled in bypass mode is handled, console output included, as
  the same request carrying the right signature would be under a real secret; and no run
  of the handler calls \<^verbatim>\<open>console.warn\<close>.
\<close>

theorem signature_bypass:
  "(WEBHOOK_SECRET env_value = placeholder_secret
      \<longleftrightarrow> \<not> truthy_str env_value \<or> env_value = Some placeholder_secret)
   \<and> ((\<forall>request. status (fst (webhook_POST secret hmac parse request)) \<noteq> 401)
      \<longleftrightarrow> secret = placeholder_secret)
   \<and> webhook_POST placeholder_secret hmac parse request
       = webhook_POST secret hmac parse
           (request\<lparr>hmacHeader := Some (base64 (hmac secret (request_text (raw_body request))))\<rparr>)
   \<and> (\<forall>call \<in> set (snd (webhook_POST secret hmac parse request)).
        call_method call \<noteq> Console_warn)"
proof -
  have one: "WEBHOOK_SECRET env_value = placeholder_secret
      \<longleftrightarrow> \<not> truthy_str env_value \<or> env_value = Some placeholder_secret"
    by (cases env_value) (auto simp: WEBHOOK_SECRET_def)
  have two: "(\<forall>request. status (fst (webhook_POST secret hmac parse request)) \<noteq> 401)
      \<longleftrightarrow> secret = placeholder_secret"
  proof
    assume all: "\<forall>request. status (fst (webhook_POST secret hmac parse request)) \<noteq> 401"
    show "secret = placeholder_secret"
    proof (rule ccontr)
      assume "secret \<noteq> placeholder_secret"
      then have "status (fst (webhook_POST secret hmac parse
          \<lparr>raw_body = [], hmacHeader = None, topicHeader = None, shopHeader = None\<rparr>)) = 401"
        by (simp add: webhook_status_401_iff)
      with all show False by blast
    qed
  next
    assume "secret = placeholder_secret"
    then show "\<forall>request. status (fst (webhook_POST secret hmac parse request)) \<noteq> 401"
      by (simp add: webhook_status_401_iff)
  qed
  show ?thesis
    using one two webhook_bypass_same_as_signed [of hmac parse request secret] webhook_no_warning
    by blast
qed

text \<open>The theorem at an unset, an empty and a real secret, and at a bypassed request.\<close>

theorem signature_bypass_witness:
  "WEBHOOK_SECRET None = placeholder_secret
   \<and> WEBHOOK_SECRET (Some []) = placeholder_secret
   \<and> WEBHOOK_SECRET (Some ''s3cret'') \<noteq> placeholder_secret
   \<and> list_all (\<lambda>call. call_method call \<noteq> Console_warn)
       (snd (webhook_POST (WEBHOOK_SECRET None) (\<lambda>key msg. [])
          (\<lambda>text. Some (JObj []))
          \<lparr>raw_body = ''{}'', hmacHeader = None, topicHeader = Some ''orders/create'',
           shopHeader = Some ''a.myshopify.com''\<rparr>))"
proof -
  let ?h = "\<lambda>key msg :: string. [] :: string"
  let ?p = "\<lambda>text :: string. Some (JObj [])"
  let ?req = "\<lparr>raw_body = ''{}'', hmacHeader = None, topicHeader = Some ''orders/create'',
           shopHeader = Some ''a.myshopify.com''\<rparr>"
  have A: "WEBHOOK_SECRET None = placeholder_secret"
    using signature_bypass [where env_value = None and secret = "WEBHOOK_SECRET None"
        and hmac = ?h and parse = ?p and request = ?req]
    by simp
  have B: "WEBHOOK_SECRET (Some []) = placeholder_secret"
    using signature_bypass [where env_value = "Some []" and secret = "WEBHOOK_SECRET None"
        and hmac = ?h and parse = ?p and request = ?req]
    by simp
  have C: "WEBHOOK_SECRET (Some ''s3cret'') \<noteq> placeholder_secret"
    using signature_bypass [where env_value = "Some ''s3cret''" and secret = "WEBHOOK_SECRET None"
        and hmac = ?h and parse = ?p and request = ?req]
    by (simp add: placeholder_secret_def)
  have D: "list_all (\<lambda>call. call_method call \<noteq> Console_warn)
       (snd (webhook_POST (WEBHOOK_SECRET None) ?h ?p ?req))"
    using signature_bypass [where env_value = None and secret = "WEBHOOK_SECRET None"
        and hmac = ?h and parse = ?p and request = ?req]
    unfolding list_all_iff by blast
  from A B C D show ?thesis by blast
qed

text \<open>Claim C7 as stated fails: with no secret configured, an unsigned request is accepted
  and the console output is two \<^verbatim>\<open>console.log\<close> lines, none of them a warning.\<close>

theorem bypass_logs_no_warning_counterexample:
  "webhook_POST (WEBHOOK_SECRET None) (\<lambda>key msg. [])
      (\<lambda>text. Some (JObj []))
      \<lparr>raw_body = ''{}'', hmacHeader = None, topicHeader = Some ''orders/create'',
       shopHeader = Some ''a.myshopify.com''\<rparr>
   = (\<lparr>status = 200, body = JObj [(''success'', JBool True)], deleted_cookies = []\<rparr>,
      [\<lparr>call_method = Console_log,
        message = ''Webhook received: orders/create from a.myshopify.com'', args = []\<rparr>,
       \<lparr>call_method = Console_log, message = ''New order created:'',
        args = [Value None]\<rparr>])"
  by (simp add: WEBHOOK_SECRET_def webhook_POST_def Let_def handle_topic_def log_payload_id_def
      console_log_def json_response_def)

section \<open>Claims about the push operation\<close>

lemma sent_headers_append: "sent_headers (xs @ ys) = sent_headers xs @ sent_headers ys"
  by (induction xs rule: sent_headers.induct) simp_all

lemma token_store_reads_append:
  "token_store_reads (xs @ ys) = token_store_reads xs @ token_store_reads ys"
  by (induction xs rule: token_store_reads.induct) simp_all

lemma after_fetch_events:
  "sent_headers (snd (after_fetch s sid outcome)) = []
   \<and> token_store_reads (snd (after_fetch s sid outcome)) = []"
  by (simp add: after_fetch_def split: fetch_outcome.splits option.splits)

lemma after_fetch_400:
  assumes "status (fst (after_fetch s sid outcome)) = 400"
  shows "\<exists>data. outcome = Fetch_response 400 (Some data)
           \<and> fst (after_fetch s sid outcome)
               = json_response 400 (JObj [(''error'', relayed_error data)])"
  using assms
  by (auto simp: after_fetch_def internal_error_def json_response_def
      split: fetch_outcome.splits option.splits if_splits)

lemma resolve_headers_events:
  "sent_headers (snd (resolve_headers env s)) = []"
  by (simp add: resolve_headers_def Let_def split: option.splits)

lemma resolve_headers_status:
  "resolve_headers env s = (Inl resp, reads) \<Longrightarrow> status resp = 401"
  by (auto simp: resolve_headers_def Let_def json_response_def split: option.splits if_splits)

text \<open>The run of a request that passes the two checks.\<close>

lemma push_POST_valid:
  assumes "json_body request = Some b" "b \<noteq> JNull" "\<not> missing_data b"
    "property b ''product'' = Some product" "property b ''shop'' = Some s"
    "\<not> invalid_product product"
  shows "push_POST env request =
     (case resolve_headers env s of
        (Inl unauthorized, reads) \<Rightarrow> (unauthorized, reads)
      | (Inr headers, reads) \<Rightarrow>
          if toString_throws s then (internal_error, reads)
          else
            (fst (after_fetch s (supplierProductId request) (fetch env s headers product)),
             reads @ [Fetch s headers product]
               @ snd (after_fetch s (supplierProductId request) (fetch env s headers product))))"
  using assms
  by (simp add: push_POST_def Let_def split_beta split: prod.splits sum.splits)

text \<open>A product without a priced variant fails the check of the handler.\<close>

lemma no_priced_variant_invalid: "\<not> has_priced_variant product \<Longrightarrow> invalid_product product"
proof (cases "property product ''variants''")
  case None
  then show ?thesis by (simp add: invalid_product_def)
next
  case (Some variants)
  assume none: "\<not> has_priced_variant product"
  show ?thesis
  proof (cases variants)
    case (JArr vs)
    with Some none show ?thesis
      by (cases vs) (auto simp: invalid_product_def has_priced_variant_def first_variant_price_def)
  qed (simp_all add: Some invalid_product_def)
qed

text \<open>
  Claim C1. For a request that passes the two checks, with the string \<open>s\<close> its shop: when the query
  on \<^verbatim>\<open>store_configs\<close> yields an active record with an access token, the one call to the
  platform carries that token and no \<^verbatim>\<open>Authorization\<close> header, whether or not the record
  also has a key pair; when the record has no token and a key pair, the call carries
  \<^verbatim>\<open>Authorization: Basic\<close> with the base64 text of \<^verbatim>\<open>api_key:api_secret\<close> and no token
  header; the legacy token store is read exactly when the query yields no record; and then
  its token is the one sent.
\<close>

theorem credential_precedence:
  assumes "json_body request = Some b" and "b \<noteq> JNull" and "\<not> missing_data b"
    and "property b ''product'' = Some product" and "property b ''shop'' = Some s"
    and "\<not> invalid_product product" and "s = JStr name"
  shows "(select_store_config env s = Some storeConfig \<and> truthy_str (access_token storeConfig) \<longrightarrow>
            sent_headers (snd (push_POST env request))
              = [[(''Content-Type'', ''application/json''),
                  (''X-Shopify-Access-Token'', the (access_token storeConfig))]])
    \<and> (select_store_config env s = Some storeConfig \<and> \<not> truthy_str (access_token storeConfig)
         \<and> truthy_str (api_key storeConfig) \<and> truthy_str (api_secret storeConfig) \<longrightarrow>
            sent_headers (snd (push_POST env request))
              = [[(''Content-Type'', ''application/json''),
                  (''Authorization'',
                   ''Basic '' @ base64 (the (api_key storeConfig) @ '':''
                                          @ the (api_secret storeConfig)))]])
    \<and> token_store_reads (snd (push_POST env request))
          = (if select_store_config env s = None then [s] else [])
    \<and> (select_store_config env s = None \<and> truthy_str (getToken env s) \<longrightarrow>
            sent_headers (snd (push_POST env request))
              = [[(''Content-Type'', ''application/json''),
                  (''X-Shopify-Access-Token'', the (getToken env s))]])"
proof -
  have no_throw: "\<not> toString_throws s" using assms(7) by simp
  show ?thesis
    by (cases "select_store_config env s")
       (simp_all add: push_POST_valid [OF assms(1-6)] no_throw resolve_headers_def Let_def
          sent_headers_append token_store_reads_append after_fetch_events)
qed

text \<open>The theorem at a record with a token and a key pair, at a record with a key pair
  only (while the legacy store holds a token for the shop), and at no record.\<close>

theorem credential_precedence_witness:
  "sent_headers (snd (push_POST
      \<lparr>select_store_config = (\<lambda>s. Some \<lparr>access_token = Some ''shpat_direct'',
           api_key = Some ''key'', api_secret = Some ''secret''\<rparr>),
       getToken = (\<lambda>s. Some ''legacy_token''),
       fetch = (\<lambda>s h p. Fetch_response 201 (Some (JObj [(''product'', JObj [(''id'', JNum 42)])])))\<rparr>
      \<lparr>json_body = Some (JObj
         [(''product'', JObj [(''title'', JStr ''Mug''),
                              (''variants'', JArr [JObj [(''price'', JStr ''9.99'')]])]),
          (''shop'', JStr ''a.myshopify.com'')]),
       supplierProductId = Some ''sp-1''\<rparr>))
     = [[(''Content-Type'', ''application/json''), (''X-Shopify-Access-Token'', ''shpat_direct'')]]
   \<and> sent_headers (snd (push_POST
      \<lparr>select_store_config = (\<lambda>s. Some \<lparr>access_token = None,
           api_key = Some ''key'', api_secret = Some ''secret''\<rparr>),
       getToken = (\<lambda>s. Some ''legacy_token''),
       fetch = (\<lambda>s h p. Fetch_response 201 (Some (JObj [(''product'', JObj [(''id'', JNum 42)])])))\<rparr>
      \<lparr>json_body = Some (JObj
         [(''product'', JObj [(''title'', JStr ''Mug''),
                              (''variants'', JArr [JObj [(''price'', JStr ''9.99'')]])]),
          (''shop'', JStr ''a.myshopify.com'')]),
       supplierProductId = Some ''sp-1''\<rparr>))
     = [[(''Content-Type'', ''application/json''), (''Authorization'', ''Basic a2V5OnNlY3JldA=='')]]
   \<and> token_store_reads (snd (push_POST
      \<lparr>select_store_config = (\<lambda>s. Some \<lparr>access_token = None,
           api_key = Some ''key'', api_secret = Some ''secret''\<rparr>),
       getToken = (\<lambda>s. Some ''legacy_token''),
       fetch = (\<lambda>s h p. Fetch_response 201 (Some (JObj [(''product'', JObj [(''id'', JNum 42)])])))\<rparr>
      \<lparr>json_body = Some (JObj
         [(''product'', JObj [(''title'', JStr ''Mug''),
                              (''variants'', JArr [JObj [(''price'', JStr ''9.99'')]])]),
          (''shop'', JStr ''a.myshopify.com'')]),
       supplierProductId = Some ''sp-1''\<rparr>))
     = []
   \<and> sent_headers (snd (push_POST
      \<lparr>select_store_config = (\<lambda>s. None),
       getToken = (\<lambda>s. Some ''legacy_token''),
       fetch = (\<lambda>s h p. Fetch_response 201 (Some (JObj [(''product'', JObj [(''id'', JNum 42)])])))\<rparr>
      \<lparr>json_body = Some (JObj
         [(''product'', JObj [(''title'', JStr ''Mug''),
                              (''variants'', JArr [JObj [(''price'', JStr ''9.99'')]])]),
          (''shop'', JStr ''a.myshopify.com'')]),
       supplierProductId = Some ''sp-1''\<rparr>))
     = [[(''Content-Type'', ''application/json''), (''X-Shopify-Access-Token'', ''legacy_token'')]]"
proof -
  let ?product = "JObj [(''title'', JStr ''Mug''),
                        (''variants'', JArr [JObj [(''price'', JStr ''9.99'')]])]"
  let ?s = "JStr ''a.myshopify.com''"
  let ?b = "JObj [(''product'', ?product), (''shop'', ?s)]"
  let ?request = "\<lparr>json_body = Some ?b, supplierProductId = Some ''sp-1''\<rparr>"
  let ?fetch = "\<lambda>(s :: json) (h :: headers) (p :: json).
      Fetch_response 201 (Some (JObj [(''product'', JObj [(''id'', JNum 42)])]))"
  let ?both = "\<lparr>access_token = Some ''shpat_direct'', api_key = Some ''key'',
      api_secret = Some ''secret''\<rparr>"
  let ?pair = "\<lparr>access_token = None, api_key = Some ''key'', api_secret = Some ''secret''\<rparr>"
  let ?env = "\<lambda>config. \<lparr>select_store_config = (\<lambda>s :: json. config),
       getToken = (\<lambda>s :: json. Some ''legacy_token''), fetch = ?fetch\<rparr>"
  have valid: "json_body ?request = Some ?b" "?b \<noteq> JNull" "\<not> missing_data ?b"
    "property ?b ''product'' = Some ?product" "property ?b ''shop'' = Some ?s"
    "\<not> invalid_product ?product"
    by (simp_all add: missing_data_def invalid_product_def first_variant_price_def)
  note T = credential_precedence [OF valid refl]
  have enc: "base64 ''key:secret'' = ''a2V5OnNlY3JldA==''"
    by (simp add: base64_digit_def base64_alphabet_def)
  have A: "sent_headers (snd (push_POST (?env (Some ?both)) ?request))
     = [[(''Content-Type'', ''application/json''), (''X-Shopify-Access-Token'', ''shpat_direct'')]]"
    using T [where env = "?env (Some ?both)" and storeConfig = ?both] by simp
  have B: "sent_headers (snd (push_POST (?env (Some ?pair)) ?request))
     = [[(''Content-Type'', ''application/json''), (''Authorization'', ''Basic a2V5OnNlY3JldA=='')]]"
    using T [where env = "?env (Some ?pair)" and storeConfig = ?pair] enc by simp
  have C: "token_store_reads (snd (push_POST (?env (Some ?pair)) ?request)) = []"
    using T [where env = "?env (Some ?pair)" and storeConfig = ?pair] by simp
  have D: "sent_headers (snd (push_POST (?env None) ?request))
     = [[(''Content-Type'', ''application/json''), (''X-Shopify-Access-Token'', ''legacy_token'')]]"
    using T [where env = "?env None" and storeConfig = ?pair] by simp
  from A B C D show ?thesis by simp
qed

text \<open>
  Claim C10. When the query yields an active record that has neither an access token nor
  both of \<^verbatim>\<open>api_key\<close> and \<^verbatim>\<open>api_secret\<close>, the push answers 401 after the query alone:
  the legacy token store is not read and nothing is sent to the platform.
\<close>

theorem malformed_direct_config_blocks_fallback:
  assumes "json_body request = Some b" and "b \<noteq> JNull" and "\<not> missing_data b"
    and "property b ''product'' = Some product" and "property b ''shop'' = Some s"
    and "\<not> invalid_product product"
    and "select_store_config env s = Some storeConfig"
    and "\<not> truthy_str (access_token storeConfig)"
    and "\<not> (truthy_str (api_key storeConfig) \<and> truthy_str (api_secret storeConfig))"
  shows "push_POST env request
           = (json_response 401 (error_body ''No valid credentials found for direct API store''),
              [Select_store_config s])
         \<and> token_store_reads (snd (push_POST env request)) = []
         \<and> sent_headers (snd (push_POST env request)) = []"
  using assms(7-9)
  by (auto simp add: push_POST_valid [OF assms(1-6)] resolve_headers_def Let_def)

text \<open>The theorem at a record with an \<^verbatim>\<open>api_key\<close> and no \<^verbatim>\<open>api_secret\<close>, while the legacy
  store holds a token for the shop.\<close>

theorem malformed_direct_config_blocks_fallback_witness:
  "push_POST
      \<lparr>select_store_config = (\<lambda>s. Some \<lparr>access_token = None,
           api_key = Some ''key'', api_secret = None\<rparr>),
       getToken = (\<lambda>s. Some ''legacy_token''),
       fetch = (\<lambda>s h p. Fetch_response 201 (Some (JObj [(''product'', JObj [(''id'', JNum 42)])])))\<rparr>
      \<lparr>json_body = Some (JObj
         [(''product'', JObj [(''title'', JStr ''Mug''),
                              (''variants'', JArr [JObj [(''price'', JStr ''9.99'')]])]),
          (''shop'', JStr ''a.myshopify.com'')]),
       supplierProductId = Some ''sp-1''\<rparr>
   = (\<lparr>status = 401,
       body = JObj [(''error'', JStr ''No valid credentials found for direct API store'')],
       deleted_cookies = []\<rparr>,
      [Select_store_config (JStr ''a.myshopify.com'')])"
proof -
  let ?product = "JObj [(''title'', JStr ''Mug''),
                        (''variants'', JArr [JObj [(''price'', JStr ''9.99'')]])]"
  let ?s = "JStr ''a.myshopify.com''"
  let ?b = "JObj [(''product'', ?product), (''shop'', ?s)]"
  let ?request = "\<lparr>json_body = Some ?b, supplierProductId = Some ''sp-1''\<rparr>"
  let ?config = "\<lparr>access_token = None, api_key = Some ''key'', api_secret = None\<rparr>"
  let ?env = "\<lparr>select_store_config = (\<lambda>s :: json. Some ?config),
       getToken = (\<lambda>s :: json. Some ''legacy_token''),
       fetch = (\<lambda>(s :: json) (h :: headers) (p :: json).
          Fetch_response 201 (Some (JObj [(''product'', JObj [(''id'', JNum 42)])])))\<rparr>"
  have valid: "json_body ?request = Some ?b" "?b \<noteq> JNull" "\<not> missing_data ?b"
    "property ?b ''product'' = Some ?product" "property ?b ''shop'' = Some ?s"
    "\<not> invalid_product ?product"
    by (simp_all add: missing_data_def invalid_product_def first_variant_price_def)
  have malformed: "select_store_config ?env ?s = Some ?config"
    "\<not> truthy_str (access_token ?config)"
    "\<not> (truthy_str (api_key ?config) \<and> truthy_str (api_secret ?config))"
    by simp_all
  from malformed_direct_config_blocks_fallback [OF valid malformed]
  show ?thesis
    by (simp add: json_response_def error_body_def)
qed

text \<open>
  Claim C9, as amended. For a request whose body is a JSON value other than null: when
  the product or the shop is missing the push answers 400 \<^verbatim>\<open>Missing shop or product data\<close>;
  when they are present and the product lacks a title or has no variant with a price it
  answers 400 with the message that names the variant and the price (a product without
  \<^verbatim>\<open>variants\<close> has no variant with a price); both before any store is read or any call is
  made. When the request passes the two checks of the handler (product and shop present,
  a title, a price on the first variant) a 400 is the status of the platform passed on:
  the one call was made, the platform answered it with 400, and the body carries the
  platform's error.
\<close>

theorem push_validation_400:
  assumes "json_body request = Some b" and "b \<noteq> JNull"
  shows "(missing_data b \<longrightarrow>
            push_POST env request
              = (json_response 400 (error_body ''Missing shop or product data''), []))
    \<and> (\<not> missing_data b
         \<and> (\<not> truthy_opt (property (the (property b ''product'')) ''title'')
            \<or> \<not> has_priced_variant (the (property b ''product''))) \<longrightarrow>
            push_POST env request
              = (json_response 400
                   (error_body ''Product must have a title and at least one variant with a price''),
                 []))
    \<and> (property product ''variants'' = None \<longrightarrow> \<not> has_priced_variant product)
    \<and> (\<not> missing_data b \<and> \<not> invalid_product (the (property b ''product''))
         \<and> status (fst (push_POST env request)) = 400 \<longrightarrow>
            (\<exists>headers data.
               fetch env (the (property b ''shop'')) headers (the (property b ''product''))
                 = Fetch_response 400 (Some data)
               \<and> sent_headers (snd (push_POST env request)) = [headers]
               \<and> fst (push_POST env request)
                   = json_response 400 (JObj [(''error'', relayed_error data)])))"
proof -
  have one: "push_POST env request
              = (json_response 400 (error_body ''Missing shop or product data''), [])"
    if "missing_data b"
    using that assms by (simp add: push_POST_def)
  have invalid: "push_POST env request
              = (json_response 400
                   (error_body ''Product must have a title and at least one variant with a price''),
                 [])"
    if "\<not> missing_data b" "invalid_product (the (property b ''product''))"
    using that assms by (simp add: push_POST_def Let_def)
  have two: "push_POST env request
              = (json_response 400
                   (error_body ''Product must have a title and at least one variant with a price''),
                 [])"
    if m: "\<not> missing_data b"
      and l: "\<not> truthy_opt (property (the (property b ''product'')) ''title'')
           \<or> \<not> has_priced_variant (the (property b ''product''))"
  proof -
    from l have "invalid_product (the (property b ''product''))"
      by (auto simp: invalid_product_def dest: no_priced_variant_invalid)
    with m show ?thesis by (rule invalid)
  qed
  have three: "\<not> has_priced_variant product" if "property product ''variants'' = None"
    using that by (simp add: has_priced_variant_def)
  have four: "\<exists>headers data.
               fetch env (the (property b ''shop'')) headers (the (property b ''product''))
                 = Fetch_response 400 (Some data)
               \<and> sent_headers (snd (push_POST env request)) = [headers]
               \<and> fst (push_POST env request)
                   = json_response 400 (JObj [(''error'', relayed_error data)])"
    if v: "\<not> missing_data b" "\<not> invalid_product (the (property b ''product''))"
      and st: "status (fst (push_POST env request)) = 400"
  proof -
    from v(1) obtain p s where ps: "property b ''product'' = Some p" "property b ''shop'' = Some s"
      by (cases "property b ''product''"; cases "property b ''shop''")
         (auto simp: missing_data_def)
    from v(2) ps have "\<not> invalid_product p" by simp
    note run = push_POST_valid [OF assms v(1) ps this]
    show ?thesis
    proof (cases "resolve_headers env s")
      case (Pair res reads)
      show ?thesis
      proof (cases res)
        case (Inl resp)
        with Pair have "status resp = 401" by (simp add: resolve_headers_status)
        with Pair Inl st show ?thesis by (simp add: run)
      next
        case (Inr headers)
        from resolve_headers_events [of env s] Pair have reads: "sent_headers reads = []"
          by simp
        show ?thesis
        proof (cases "toString_throws s")
          case True
          with Pair Inr st show ?thesis
            by (simp add: run internal_error_def json_response_def)
        next
          case False
          with Pair Inr st have
            "status (fst (after_fetch s (supplierProductId request) (fetch env s headers p))) = 400"
            by (simp add: run)
          from after_fetch_400 [OF this] obtain data where
            d: "fetch env s headers p = Fetch_response 400 (Some data)"
               "fst (after_fetch s (supplierProductId request) (fetch env s headers p))
                  = json_response 400 (JObj [(''error'', relayed_error data)])"
            by blast
          have "sent_headers (snd (push_POST env request)) = [headers]"
            using Pair Inr False reads
            by (simp add: run sent_headers_append after_fetch_events)
          moreover have "fst (push_POST env request)
              = json_response 400 (JObj [(''error'', relayed_error data)])"
            using Pair Inr False d(2) by (simp add: run)
          ultimately show ?thesis using d(1) ps by auto
        qed
      qed
    qed
  qed
  show ?thesis
    using one two three four by blast
qed

text \<open>The theorem at a product without \<^verbatim>\<open>variants\<close>, at a body without \<^verbatim>\<open>shop\<close>, and at a
  request that passes both checks and whose call the platform answers with 400.\<close>

theorem push_validation_400_witness:
  "push_POST
      \<lparr>select_store_config = (\<lambda>s. None), getToken = (\<lambda>s. Some ''legacy_token''),
       fetch = (\<lambda>s h p. Fetch_response 400 (Some (JObj [(''errors'', JStr ''Bad Request'')])))\<rparr>
      \<lparr>json_body = Some (JObj
         [(''product'', JObj [(''title'', JStr ''Mug'')]), (''shop'', JStr ''a.myshopify.com'')]),
       supplierProductId = None\<rparr>
   = (\<lparr>status = 400,
       body = JObj [(''error'',
                JStr ''Product must have a title and at least one variant with a price'')],
       deleted_cookies = []\<rparr>,
      [])
   \<and> push_POST
      \<lparr>select_store_config = (\<lambda>s. None), getToken = (\<lambda>s. Some ''legacy_token''),
       fetch = (\<lambda>s h p. Fetch_response 400 (Some (JObj [(''errors'', JStr ''Bad Request'')])))\<rparr>
      \<lparr>json_body = Some (JObj [(''product'', JObj [(''title'', JStr ''Mug'')])]),
       supplierProductId = None\<rparr>
   = (\<lparr>status = 400, body = JObj [(''error'', JStr ''Missing shop or product data'')],
       deleted_cookies = []\<rparr>,
      [])
   \<and> (\<exists>headers data.
        Fetch_response 400 (Some (JObj [(''errors'', JStr ''Bad Request'')]))
          = Fetch_response 400 (Some data)
        \<and> sent_headers (snd (push_POST
            \<lparr>select_store_config = (\<lambda>s. None), getToken = (\<lambda>s. Some ''legacy_token''),
             fetch = (\<lambda>s h p.
               Fetch_response 400 (Some (JObj [(''errors'', JStr ''Bad Request'')])))\<rparr>
            \<lparr>json_body = Some (JObj
               [(''product'', JObj [(''title'', JStr ''Mug''),
                                    (''variants'', JArr [JObj [(''price'', JStr ''9.99'')]])]),
                (''shop'', JStr ''a.myshopify.com'')]),
             supplierProductId = None\<rparr>)) = [headers]
        \<and> fst (push_POST
            \<lparr>select_store_config = (\<lambda>s. None), getToken = (\<lambda>s. Some ''legacy_token''),
             fetch = (\<lambda>s h p.
               Fetch_response 400 (Some (JObj [(''errors'', JStr ''Bad Request'')])))\<rparr>
            \<lparr>json_body = Some (JObj
               [(''product'', JObj [(''title'', JStr ''Mug''),
                                    (''variants'', JArr [JObj [(''price'', JStr ''9.99'')]])]),
                (''shop'', JStr ''a.myshopify.com'')]),
             supplierProductId = None\<rparr>)
            = json_response 400 (JObj [(''error'', relayed_error data)]))"
proof -
  let ?product = "JObj [(''title'', JStr ''Mug'')]"
  let ?priced = "JObj [(''title'', JStr ''Mug''),
                       (''variants'', JArr [JObj [(''price'', JStr ''9.99'')]])]"
  let ?b = "JObj [(''product'', ?product), (''shop'', JStr ''a.myshopify.com'')]"
  let ?b' = "JObj [(''product'', ?product)]"
  let ?b'' = "JObj [(''product'', ?priced), (''shop'', JStr ''a.myshopify.com'')]"
  let ?env = "\<lparr>select_store_config = (\<lambda>s :: json. None),
       getToken = (\<lambda>s :: json. Some ''legacy_token''),
       fetch = (\<lambda>(s :: json) (h :: headers) (p :: json).
         Fetch_response 400 (Some (JObj [(''errors'', JStr ''Bad Request'')])))\<rparr>"
  have no_variants: "property ?product ''variants'' = None" by simp
  have present: "\<not> missing_data ?b" "\<not> missing_data ?b''" by (simp_all add: missing_data_def)
  have absent: "missing_data ?b'" by (simp add: missing_data_def)
  note T = push_validation_400 [where env = ?env and product = ?product]
  have unpriced: "\<not> has_priced_variant ?product"
    using T [where request = "\<lparr>json_body = Some ?b, supplierProductId = None\<rparr>" and b = ?b]
      no_variants
    by simp
  have A: "push_POST ?env \<lparr>json_body = Some ?b, supplierProductId = None\<rparr>
      = (json_response 400
           (error_body ''Product must have a title and at least one variant with a price''), [])"
    using T [where request = "\<lparr>json_body = Some ?b, supplierProductId = None\<rparr>" and b = ?b]
      present(1) unpriced
    by simp
  have B: "push_POST ?env \<lparr>json_body = Some ?b', supplierProductId = None\<rparr>
      = (json_response 400 (error_body ''Missing shop or product data''), [])"
    using T [where request = "\<lparr>json_body = Some ?b', supplierProductId = None\<rparr>" and b = ?b']
      absent
    by simp
  have passes: "\<not> invalid_product ?priced"
    by (simp add: invalid_product_def first_variant_price_def)
  have relayed: "status (fst (push_POST ?env \<lparr>json_body = Some ?b'', supplierProductId = None\<rparr>))
      = 400"
    by (simp add: push_POST_def Let_def missing_data_def invalid_product_def
        first_variant_price_def resolve_headers_def after_fetch_def ok_def refused_status_def
        json_response_def)
  have C: "\<exists>headers data.
        Fetch_response 400 (Some (JObj [(''errors'', JStr ''Bad Request'')]))
          = Fetch_response 400 (Some data)
        \<and> sent_headers (snd (push_POST ?env
              \<lparr>json_body = Some ?b'', supplierProductId = None\<rparr>)) = [headers]
        \<and> fst (push_POST ?env \<lparr>json_body = Some ?b'', supplierProductId = None\<rparr>)
            = json_response 400 (JObj [(''error'', relayed_error data)])"
    using T [where request = "\<lparr>json_body = Some ?b'', supplierProductId = None\<rparr>" and b = ?b'']
      present(2) passes relayed
    by simp
  from A B have AB: "push_POST ?env \<lparr>json_body = Some ?b, supplierProductId = None\<rparr>
      = (\<lparr>status = 400,
       body = JObj [(''error'',
                JStr ''Product must have a title and at least one variant with a price'')],
       deleted_cookies = []\<rparr>, [])
    \<and> push_POST ?env \<lparr>json_body = Some ?b', supplierProductId = None\<rparr>
      = (\<lparr>status = 400, body = JObj [(''error'', JStr ''Missing shop or product data'')],
       deleted_cookies = []\<rparr>, [])"
    by (simp add: json_response_def error_body_def)
  from AB C show ?thesis by blast
qed

text \<open>
  Outside the amended claim: the check of the handler reads the first variant only, while
  its message speaks of at least one variant. A product whose second variant alone has a
  price has a priced variant and is answered 400 all the same.
\<close>

lemma first_variant_only:
  "has_priced_variant
     (JObj [(''title'', JStr ''Mug''),
            (''variants'', JArr [JObj [(''sku'', JStr ''M-1'')],
                                 JObj [(''price'', JStr ''9.99'')]])])
   \<and> push_POST
      \<lparr>select_store_config = (\<lambda>s. None), getToken = (\<lambda>s. Some ''legacy_token''),
       fetch = (\<lambda>s h p. Fetch_rejects)\<rparr>
      \<lparr>json_body = Some (JObj
         [(''product'', JObj [(''title'', JStr ''Mug''),
            (''variants'', JArr [JObj [(''sku'', JStr ''M-1'')],
                                 JObj [(''price'', JStr ''9.99'')]])]),
          (''shop'', JStr ''a.myshopify.com'')]),
       supplierProductId = None\<rparr>
   = (json_response 400
        (error_body ''Product must have a title and at least one variant with a price''), [])"
  by (simp add: has_priced_variant_def push_POST_def Let_def missing_data_def
      invalid_product_def first_variant_price_def)

text \<open>Claim C9 as stated fails: a request that passes both checks is answered 400 when the
  platform answers the call with 400, the status being relayed.\<close>

theorem relayed_400_counterexample:
  "status (fst (push_POST
      \<lparr>select_store_config = (\<lambda>s. Some \<lparr>access_token = Some ''shpat_direct'',
           api_key = None, api_secret = None\<rparr>),
       getToken = (\<lambda>s. None),
       fetch = (\<lambda>s h p. Fetch_response 400 (Some (JObj [(''errors'', JStr ''Bad Request'')])))\<rparr>
      \<lparr>json_body = Some (JObj
         [(''product'', JObj [(''title'', JStr ''Mug''),
                              (''variants'', JArr [JObj [(''price'', JStr ''9.99'')]])]),
          (''shop'', JStr ''a.myshopify.com'')]),
       supplierProductId = Some ''sp-1''\<rparr>)) = 400
   \<and> \<not> missing_data (JObj
         [(''product'', JObj [(''title'', JStr ''Mug''),
                              (''variants'', JArr [JObj [(''price'', JStr ''9.99'')]])]),
          (''shop'', JStr ''a.myshopify.com'')])
   \<and> \<not> invalid_product (JObj [(''title'', JStr ''Mug''),
                              (''variants'', JArr [JObj [(''price'', JStr ''9.99'')]])])
   \<and> sent_headers (snd (push_POST
      \<lparr>select_store_config = (\<lambda>s. Some \<lparr>access_token = Some ''shpat_direct'',
           api_key = None, api_secret = None\<rparr>),
       getToken = (\<lambda>s. None),
       fetch = (\<lambda>s h p. Fetch_response 400 (Some (JObj [(''errors'', JStr ''Bad Request'')])))\<rparr>
      \<lparr>json_body = Some (JObj
         [(''product'', JObj [(''title'', JStr ''Mug''),
                              (''variants'', JArr [JObj [(''price'', JStr ''9.99'')]])]),
          (''shop'', JStr ''a.myshopify.com'')]),
       supplierProductId = Some ''sp-1''\<rparr>))
     = [[(''Content-Type'', ''application/json''), (''X-Shopify-Access-Token'', ''shpat_direct'')]]"
  by (simp add: push_POST_def Let_def missing_data_def invalid_product_def first_variant_price_def
      resolve_headers_def after_fetch_def ok_def refused_status_def json_response_def)

end
